theory Spec2Isabelle
  imports Main "HOL-Library.Log_Nat" "HOL-Library.Sublist"
begin

section \<open>JavaScript strings and numbers used by the payment form\<close>

text \<open>
  The component \<^verbatim>\<open>src/components/SendPayment.jsx\<close> keeps the two form fields as
  strings. A string is modelled as a \<^typ>\<open>string\<close>, so a code unit is a \<^typ>\<open>char\<close> in the
  range 0..255. \<^verbatim>\<open>String.prototype.trim\<close> and \<^verbatim>\<open>parseFloat\<close> strip the
  ECMAScript \<^verbatim>\<open>WhiteSpace\<close> and \<^verbatim>\<open>LineTerminator\<close> code points; the ones in
  this range are TAB, LF, VT, FF, CR, SP and NBSP.
\<close>

definition isWhiteSpace :: "char \<Rightarrow> bool" where
  "isWhiteSpace c = (of_char c \<in> {9::int, 10, 11, 12, 13, 32, 160})"

definition trimStart :: "string \<Rightarrow> string" where
  "trimStart s = dropWhile isWhiteSpace s"

definition trimEnd :: "string \<Rightarrow> string" where
  "trimEnd s = rev (dropWhile isWhiteSpace (rev s))"

definition trim :: "string \<Rightarrow> string" where
  "trim s = trimEnd (trimStart s)"

text \<open>
  A Number is an IEEE 754 binary64 value. The finite ones are kept as the rational they
  denote (the two zeros are not told apart: no comparison of the component does).
\<close>

datatype jsnum = NaN | Fin rat | PosInf | NegInf

fun negate :: "jsnum \<Rightarrow> jsnum" where
  "negate NaN = NaN"
| "negate (Fin x) = Fin (- x)"
| "negate PosInf = NegInf"
| "negate NegInf = PosInf"

definition isNaN :: "jsnum \<Rightarrow> bool" where
  "isNaN x = (x = NaN)"

text \<open>The relational operators \<^verbatim>\<open><\<close> and \<^verbatim>\<open><=\<close> on Numbers: false when an operand is NaN.\<close>

fun js_lt :: "jsnum \<Rightarrow> jsnum \<Rightarrow> bool" where
  "js_lt NaN y = False"
| "js_lt x NaN = False"
| "js_lt (Fin a) (Fin b) = (a < b)"
| "js_lt (Fin a) PosInf = True"
| "js_lt (Fin a) NegInf = False"
| "js_lt PosInf y = False"
| "js_lt NegInf (Fin b) = True"
| "js_lt NegInf PosInf = True"
| "js_lt NegInf NegInf = False"

definition js_le :: "jsnum \<Rightarrow> jsnum \<Rightarrow> bool" where
  "js_le x y = (x \<noteq> NaN \<and> y \<noteq> NaN \<and> (js_lt x y \<or> x = y))"

text \<open>
  Rounding a non-negative rational to binary64, ties to even: \<open>ilog2 x\<close> is the binary
  exponent of \<open>x\<close>, clamped below at the exponent of the subnormals; the unit in the last
  place is 52 binary digits below it; a result of \<open>2 ^ 1024\<close> or more is Infinity.
\<close>

definition roundHalfEven :: "rat \<Rightarrow> int" where
  "roundHalfEven x =
     (let f = \<lfloor>x\<rfloor>; d = x - of_int f
      in if d < 1 / 2 then f else if 1 / 2 < d then f + 1 else if even f then f else f + 1)"

definition ilog2 :: "rat \<Rightarrow> int" where
  "ilog2 x =
     (let k = bitlen (fst (quotient_of x)) - bitlen (snd (quotient_of x))
      in if power_int 2 k \<le> x then k else k - 1)"

definition toDouble :: "rat \<Rightarrow> jsnum" where
  "toDouble x =
     (if x = 0 then Fin 0
      else
        let e = max (ilog2 x) (- 1022);
            u = power_int 2 (e - 52);
            r = of_int (roundHalfEven (x / u)) * u
        in if 2 ^ 1024 \<le> r then PosInf else Fin r)"

text \<open>
  \<^verbatim>\<open>parseFloat(string)\<close>: leading white space is skipped, the longest prefix that is a
  \<^verbatim>\<open>StrDecimalLiteral\<close> is read, and its mathematical value is rounded to a Number;
  NaN when no prefix is one. \<open>strUnsignedDecimalLiteral\<close> gives the exact mathematical
  value of the longest unsigned prefix.
\<close>

datatype mv = NoLiteral | Infinity | MV rat

definition isDecimalDigit :: "char \<Rightarrow> bool" where
  "isDecimalDigit c = (48 \<le> (of_char c :: int) \<and> (of_char c :: int) \<le> 57)"

definition digitsValue :: "string \<Rightarrow> int" where
  "digitsValue ds = foldl (\<lambda>n c. 10 * n + (of_char c - 48)) 0 ds"

definition signedInteger :: "string \<Rightarrow> int option" where
  "signedInteger r =
     (case r of
        [] \<Rightarrow> None
      | c # r' \<Rightarrow>
          if c = CHR ''-'' then
            (if takeWhile isDecimalDigit r' = [] then None
             else Some (- digitsValue (takeWhile isDecimalDigit r')))
          else if c = CHR ''+'' then
            (if takeWhile isDecimalDigit r' = [] then None
             else Some (digitsValue (takeWhile isDecimalDigit r')))
          else
            (if takeWhile isDecimalDigit r = [] then None
             else Some (digitsValue (takeWhile isDecimalDigit r))))"

definition exponentPart :: "string \<Rightarrow> int" where
  "exponentPart r =
     (case r of
        [] \<Rightarrow> 0
      | c # r' \<Rightarrow>
          if c = CHR ''e'' \<or> c = CHR ''E'' then
            (case signedInteger r' of None \<Rightarrow> 0 | Some e \<Rightarrow> e)
          else 0)"

definition strUnsignedDecimalLiteral :: "string \<Rightarrow> mv" where
  "strUnsignedDecimalLiteral s =
     (if take 8 s = ''Infinity'' then Infinity
      else
        let ip = takeWhile isDecimalDigit s; r1 = dropWhile isDecimalDigit s
        in case r1 of
             [] \<Rightarrow> if ip = [] then NoLiteral else MV (of_int (digitsValue ip))
           | c # r2 \<Rightarrow>
               if c = CHR ''.'' then
                 (let fp = takeWhile isDecimalDigit r2; r3 = dropWhile isDecimalDigit r2
                  in if ip = [] \<and> fp = [] then NoLiteral
                     else MV (of_int (digitsValue (ip @ fp))
                            * power_int 10 (exponentPart r3 - int (length fp))))
               else if ip = [] then NoLiteral
               else MV (of_int (digitsValue ip) * power_int 10 (exponentPart r1)))"

fun toNumber :: "mv \<Rightarrow> jsnum" where
  "toNumber NoLiteral = NaN"
| "toNumber Infinity = PosInf"
| "toNumber (MV x) = toDouble x"

definition parseFloat :: "string \<Rightarrow> jsnum" where
  "parseFloat s =
     (case trimStart s of
        [] \<Rightarrow> NaN
      | c # r \<Rightarrow>
          if c = CHR ''-'' then negate (toNumber (strUnsignedDecimalLiteral r))
          else if c = CHR ''+'' then toNumber (strUnsignedDecimalLiteral r)
          else toNumber (strUnsignedDecimalLiteral (c # r)))"

text \<open>
  The decimal quantity that an amount text denotes: the value of the same literal, sign
  included, before any rounding (\<open>Fin\<close> of the exact rational).
\<close>

fun exact :: "mv \<Rightarrow> jsnum" where
  "exact NoLiteral = NaN"
| "exact Infinity = PosInf"
| "exact (MV x) = Fin x"

definition decimalValue :: "string \<Rightarrow> jsnum" where
  "decimalValue s =
     (case trimStart s of
        [] \<Rightarrow> NaN
      | c # r \<Rightarrow>
          if c = CHR ''-'' then negate (exact (strUnsignedDecimalLiteral r))
          else if c = CHR ''+'' then exact (strUnsignedDecimalLiteral r)
          else exact (strUnsignedDecimalLiteral (c # r)))"

text \<open>
  The Number \<^verbatim>\<open>0.0000001\<close> is \<open>7555786372591432 / 2 ^ 76\<close>; half a unit in the last
  place below it lies \<open>15111572745182863 / 2 ^ 77\<close>, which is less than \<open>1 / 10 ^ 7\<close> by
  about \<open>1.1 / 10 ^ 23\<close>.
\<close>

definition acceptanceBound :: rat where
  "acceptanceBound = 15111572745182863 / 151115727451828646838272"

section \<open>The send-payment component\<close>

text \<open>
  The React state of \<^verbatim>\<open>SendPayment\<close> (its six \<^verbatim>\<open>useState\<close> cells). \<open>error\<close> and
  \<open>success\<close> are \<open>None\<close> for \<^verbatim>\<open>null\<close>; \<open>step\<close> holds one of the strings
  \<^verbatim>\<open>"input"\<close>, \<^verbatim>\<open>"signing"\<close>, \<^verbatim>\<open>"submitting"\<close>.
\<close>

record success_info =
  success_hash :: "string option"
  explorerUrl :: string

record ui_state =
  destination :: string
  amount :: string
  isLoading :: bool
  error :: "string option"
  success :: "success_info option"
  step :: string

text \<open>
  A thrown value is kept as its \<^verbatim>\<open>message\<close> property (\<open>None\<close> when it has none, as
  a thrown string has); \<^verbatim>\<open>new Error(m)\<close> is \<open>Thrown (Some m)\<close>. The catch block reads
  \<^verbatim>\<open>err.message\<close>, so a thrown value is taken not to be \<^verbatim>\<open>null\<close> or
  \<^verbatim>\<open>undefined\<close>. An awaited call either rejects with a thrown value or resolves to a
  result.
\<close>

datatype thrown = Thrown (message: "string option")

datatype 'a outcome = Rejects thrown | Resolves 'a

record sign_options =
  network :: string
  networkPassphrase :: string
  accountToSign :: string

record submit_result =
  hash :: "string option"

text \<open>
  What the component receives from outside: its props (\<open>publicKey\<close>, with the empty string
  for \<^verbatim>\<open>null\<close>, and \<open>onTransactionComplete\<close>, acting on the parent's state of type
  \<open>'p\<close>) and the functions and the constant it imports from
  \<^verbatim>\<open>@/stellar/stellarClient\<close> and \<^verbatim>\<open>@stellar/freighter-api\<close>, whose bodies are not
  part of the component. Each of the three asynchronous functions is given by the outcome
  it has for its arguments during the run. A signature is a string or \<open>None\<close> for
  \<^verbatim>\<open>null\<close> and \<^verbatim>\<open>undefined\<close>; the result of a submission is an object whose
  \<open>hash\<close> may be missing; \<open>isValidPublicKey\<close>, \<open>getExplorerUrl\<close> and the callback are taken
  to return normally.
\<close>

record 'p env =
  publicKey :: string
  onTransactionComplete :: "('p \<Rightarrow> 'p) option"
  isValidPublicKey :: "string \<Rightarrow> bool"
  buildPaymentTransaction :: "string \<Rightarrow> string \<Rightarrow> string \<Rightarrow> string outcome"
  signTransaction :: "string \<Rightarrow> sign_options \<Rightarrow> string option outcome"
  submitTransaction :: "string \<Rightarrow> submit_result outcome"
  getExplorerUrl :: "string option \<Rightarrow> string"
  NETWORK_PASSPHRASE :: string

text \<open>
  The observable effects of one run of the handler, in order: each awaited call with its
  arguments and the state the form shows while the call is pending, the
  \<^verbatim>\<open>console.error\<close> of the catch block, and the call of \<open>onTransactionComplete\<close>.
  The state setters are applied in program order to the state of the form.
\<close>

datatype call =
    Build string string string
  | Sign string sign_options
  | Submit string

datatype event = Await call ui_state | ConsoleError thrown | Notify

record 'p world =
  ui :: ui_state
  parent :: 'p
  trace :: "event list"

definition setDestination :: "string \<Rightarrow> 'p world \<Rightarrow> 'p world" where
  "setDestination v w = w\<lparr>ui := (ui w)\<lparr>destination := v\<rparr>\<rparr>"

definition setAmount :: "string \<Rightarrow> 'p world \<Rightarrow> 'p world" where
  "setAmount v w = w\<lparr>ui := (ui w)\<lparr>amount := v\<rparr>\<rparr>"

definition setIsLoading :: "bool \<Rightarrow> 'p world \<Rightarrow> 'p world" where
  "setIsLoading v w = w\<lparr>ui := (ui w)\<lparr>isLoading := v\<rparr>\<rparr>"

definition setError :: "string option \<Rightarrow> 'p world \<Rightarrow> 'p world" where
  "setError v w = w\<lparr>ui := (ui w)\<lparr>error := v\<rparr>\<rparr>"

definition setSuccess :: "success_info option \<Rightarrow> 'p world \<Rightarrow> 'p world" where
  "setSuccess v w = w\<lparr>ui := (ui w)\<lparr>success := v\<rparr>\<rparr>"

definition setStep :: "string \<Rightarrow> 'p world \<Rightarrow> 'p world" where
  "setStep v w = w\<lparr>ui := (ui w)\<lparr>step := v\<rparr>\<rparr>"

definition await :: "call \<Rightarrow> 'p world \<Rightarrow> 'p world" where
  "await c w = w\<lparr>trace := trace w @ [Await c (ui w)]\<rparr>"

definition consoleError :: "thrown \<Rightarrow> 'p world \<Rightarrow> 'p world" where
  "consoleError e w = w\<lparr>trace := trace w @ [ConsoleError e]\<rparr>"

text \<open>\<^verbatim>\<open>if (onTransactionComplete) { onTransactionComplete(); }\<close>\<close>

definition notifyParent :: "'p env \<Rightarrow> 'p world \<Rightarrow> 'p world" where
  "notifyParent env w =
     (case onTransactionComplete env of
        None \<Rightarrow> w
      | Some cb \<Rightarrow> w\<lparr>parent := cb (parent w), trace := trace w @ [Notify]\<rparr>)"

text \<open>The literal \<^verbatim>\<open>0.0000001\<close> of the source, as the Number it denotes.\<close>

definition minimumAmount :: jsnum where
  "minimumAmount = toDouble (1 / 10000000)"

text \<open>
  \<^verbatim>\<open>validateInputs\<close> (lines 51-82) reads \<open>destination\<close> and \<open>amount\<close> of the render
  the handler was created in; it throws an \<^verbatim>\<open>Error\<close> or returns \<^verbatim>\<open>true\<close>.
\<close>

definition validateInputs :: "'p env \<Rightarrow> ui_state \<Rightarrow> thrown + bool" where
  "validateInputs env s =
     (if trim (destination s) = [] then
        Inl (Thrown (Some ''Destination address is required''))
      else if \<not> isValidPublicKey env (trim (destination s)) then
        Inl (Thrown (Some
          ''Invalid Stellar address format. Must start with 'G' and be 56 characters.''))
      else if trim (destination s) = publicKey env then
        Inl (Thrown (Some ''Cannot send to your own address''))
      else if trim (amount s) = [] then
        Inl (Thrown (Some ''Amount is required''))
      else if isNaN (parseFloat (amount s)) \<or> js_le (parseFloat (amount s)) (Fin 0) then
        Inl (Thrown (Some ''Amount must be a positive number''))
      else if js_lt (parseFloat (amount s)) minimumAmount then
        Inl (Thrown (Some ''Amount is below minimum (0.0000001 XLM)''))
      else Inr True)"

text \<open>
  The \<^verbatim>\<open>try\<close> block of \<^verbatim>\<open>handleSendPayment\<close> (lines 91-135), from the last
  statement backwards. Each part returns the value thrown in it, if any, and the world.
  \<open>s\<close> is the state of the render the handler closes over. \<^verbatim>\<open>!signedXDR\<close> holds of
  \<^verbatim>\<open>null\<close>, \<^verbatim>\<open>undefined\<close> (both \<open>None\<close>) and of the empty string.
\<close>

definition submitPart :: "'p env \<Rightarrow> string \<Rightarrow> 'p world \<Rightarrow> thrown option \<times> 'p world" where
  "submitPart env signedXDR w =
     (let w1 = await (Submit signedXDR) (setStep ''submitting'' w)
      in case submitTransaction env signedXDR of
           Rejects e \<Rightarrow> (Some e, w1)
         | Resolves result \<Rightarrow>
             (None,
              notifyParent env
                (setAmount []
                  (setDestination []
                    (setSuccess
                      (Some \<lparr>success_hash = hash result,
                             explorerUrl = getExplorerUrl env (hash result)\<rparr>)
                      w1)))))"

text \<open>The second argument of \<^verbatim>\<open>signTransaction\<close> (lines 108-110).\<close>

definition signOptions :: "'p env \<Rightarrow> sign_options" where
  "signOptions env =
     \<lparr>network = ''TESTNET'', networkPassphrase = NETWORK_PASSPHRASE env,
      accountToSign = publicKey env\<rparr>"

definition noSignature :: "string option \<Rightarrow> bool" where
  "noSignature signedXDR = (case signedXDR of None \<Rightarrow> True | Some x \<Rightarrow> x = [])"

definition signPart :: "'p env \<Rightarrow> string \<Rightarrow> 'p world \<Rightarrow> thrown option \<times> 'p world" where
  "signPart env transactionXDR w =
     (let opts = signOptions env;
          w1 = await (Sign transactionXDR opts) w
      in case signTransaction env transactionXDR opts of
           Rejects e \<Rightarrow> (Some e, w1)
         | Resolves signedXDR \<Rightarrow>
             if noSignature signedXDR then
               (Some (Thrown (Some ''Transaction signing was cancelled'')), w1)
             else submitPart env (the signedXDR) w1)"

definition tryBlock :: "'p env \<Rightarrow> ui_state \<Rightarrow> 'p world \<Rightarrow> thrown option \<times> 'p world" where
  "tryBlock env s w =
     (case validateInputs env s of
        Inl e \<Rightarrow> (Some e, w)
      | Inr ok \<Rightarrow>
          let w1 = setStep ''signing'' (setIsLoading True w);
              w2 = await (Build (publicKey env) (trim (destination s)) (trim (amount s))) w1
          in case buildPaymentTransaction env (publicKey env) (trim (destination s))
                    (trim (amount s)) of
               Rejects e \<Rightarrow> (Some e, w2)
             | Resolves transactionXDR \<Rightarrow> signPart env transactionXDR w2)"

text \<open>
  The \<^verbatim>\<open>catch\<close> block (lines 136-138):
  \<^verbatim>\<open>setError(err.message || "Transaction failed. Please try again.")\<close>.
\<close>

definition messageOrDefault :: "thrown \<Rightarrow> string" where
  "messageOrDefault err =
     (case message err of
        None \<Rightarrow> ''Transaction failed. Please try again.''
      | Some m \<Rightarrow> if m = [] then ''Transaction failed. Please try again.'' else m)"

definition catchBlock :: "thrown \<Rightarrow> 'p world \<Rightarrow> 'p world" where
  "catchBlock err w = setError (Some (messageOrDefault err)) (consoleError err w)"

text \<open>The \<^verbatim>\<open>finally\<close> block (lines 139-142).\<close>

definition finallyBlock :: "'p world \<Rightarrow> 'p world" where
  "finallyBlock w = setStep ''input'' (setIsLoading False w)"

definition handleSendPayment :: "'p env \<Rightarrow> 'p world \<Rightarrow> 'p world" where
  "handleSendPayment env w =
     (let w0 = setSuccess None (setError None w)
      in case tryBlock env (ui w) w0 of
           (None, w1) \<Rightarrow> finallyBlock w1
         | (Some err, w1) \<Rightarrow> finallyBlock (catchBlock err w1))"

text \<open>\<^verbatim>\<open>getStepLabel\<close> (lines 148-157), the label of the button while loading.\<close>

definition getStepLabel :: "ui_state \<Rightarrow> string" where
  "getStepLabel s =
     (if step s = ''signing'' then ''Waiting for signature...''
      else if step s = ''submitting'' then ''Submitting transaction...''
      else ''Processing...'')"

text \<open>
  The submit button (lines 274-277) is rendered with
  \<^verbatim>\<open>disabled={isLoading || !destination || !amount}\<close>; a string is falsy when it is
  empty. The error banner (line 211) is rendered when \<open>error\<close> is truthy.
\<close>

definition submitDisabled :: "ui_state \<Rightarrow> bool" where
  "submitDisabled s = (isLoading s \<or> destination s = [] \<or> amount s = [])"

definition errorBanner :: "ui_state \<Rightarrow> bool" where
  "errorBanner s = (case error s of None \<Rightarrow> False | Some m \<Rightarrow> m \<noteq> [])"

text \<open>
  The amount field is an input of type \<^verbatim>\<open>number\<close> (lines 256-265). Its value, which
  \<^verbatim>\<open>onChange\<close> stores, is the typed text when that is a valid floating-point number
  in the sense of HTML (an optional minus sign; digits, a fractional part, or both; an
  optional exponent) and the empty string otherwise. Both fields are disabled while
  loading.
\<close>

definition validExponent :: "string \<Rightarrow> bool" where
  "validExponent r =
     (case r of
        [] \<Rightarrow> True
      | c # r' \<Rightarrow>
          (c = CHR ''e'' \<or> c = CHR ''E'')
          \<and> (let d = (case r' of
                        [] \<Rightarrow> []
                      | s # r'' \<Rightarrow> if s = CHR ''-'' \<or> s = CHR ''+'' then r'' else r')
             in d \<noteq> [] \<and> list_all isDecimalDigit d))"

definition validFloatingPointNumber :: "string \<Rightarrow> bool" where
  "validFloatingPointNumber s =
     (let u = (case s of [] \<Rightarrow> [] | c # r \<Rightarrow> if c = CHR ''-'' then r else s);
          ip = takeWhile isDecimalDigit u;
          r1 = dropWhile isDecimalDigit u
      in case r1 of
           [] \<Rightarrow> ip \<noteq> []
         | c # r2 \<Rightarrow>
             if c = CHR ''.'' then
               takeWhile isDecimalDigit r2 \<noteq> [] \<and> validExponent (dropWhile isDecimalDigit r2)
             else ip \<noteq> [] \<and> validExponent r1)"

definition numberInputValue :: "string \<Rightarrow> string" where
  "numberInputValue typed = (if validFloatingPointNumber typed then typed else [])"

definition onChangeDestination :: "string \<Rightarrow> 'p world \<Rightarrow> 'p world" where
  "onChangeDestination typed w = (if isLoading (ui w) then w else setDestination typed w)"

definition onChangeAmount :: "string \<Rightarrow> 'p world \<Rightarrow> 'p world" where
  "onChangeAmount typed w =
     (if isLoading (ui w) then w else setAmount (numberInputValue typed) w)"

text \<open>What the amount state can hold: it starts empty and is set by these two only.\<close>

definition amountHeld :: "string \<Rightarrow> bool" where
  "amountHeld a = (a = [] \<or> validFloatingPointNumber a)"

text \<open>
  The input also has \<^verbatim>\<open>min="0.0000001"\<close> and \<^verbatim>\<open>step="0.0000001"\<close>, and the form
  has no \<^verbatim>\<open>noValidate\<close>: before the submit event is sent, the browser checks that
  the value, unless empty, is not below the minimum and lies a whole number of steps
  above it. Browsers do this arithmetic on the decimal value of the text. The
  destination input has no constraint.
\<close>

definition wholeSteps :: "rat \<Rightarrow> bool" where
  "wholeSteps x =
     (of_int \<lfloor>(x - 1 / 10000000) / (1 / 10000000)\<rfloor> = (x - 1 / 10000000) / (1 / 10000000))"

definition amountInputValid :: "string \<Rightarrow> bool" where
  "amountInputValid a =
     (a = []
      \<or> (validFloatingPointNumber a
          \<and> (case decimalValue a of
                Fin x \<Rightarrow> 1 / 10000000 \<le> x \<and> wholeSteps x
              | _ \<Rightarrow> False)))"

text \<open>
  Submitting the form with the submit button (lines 224-228, 274-277) runs the handler.
  The form is rendered only when \<open>publicKey\<close> is truthy (line 160); a disabled button
  submits nothing, and neither does a form whose amount fails the browser's check.
\<close>

definition onSubmit :: "'p env \<Rightarrow> 'p world \<Rightarrow> 'p world" where
  "onSubmit env w =
     (if publicKey env = [] \<or> submitDisabled (ui w) \<or> \<not> amountInputValid (amount (ui w))
      then w
      else handleSendPayment env w)"

text \<open>
  \<^verbatim>\<open>pages/Index.tsx\<close> passes \<open>handleTransactionComplete\<close> (lines 43-46) as
  \<open>onTransactionComplete\<close>; the parent's state is the counter \<open>balanceRefreshKey\<close>.
\<close>

definition handleTransactionComplete :: "nat \<Rightarrow> nat" where
  "handleTransactionComplete prev = prev + 1"

text \<open>The awaited calls of a trace, and the states shown while they are pending.\<close>

fun calls :: "event list \<Rightarrow> call list" where
  "calls [] = []"
| "calls (Await c s # es) = c # calls es"
| "calls (e # es) = calls es"

fun pending :: "event list \<Rightarrow> ui_state list" where
  "pending [] = []"
| "pending (Await c s # es) = s # pending es"
| "pending (e # es) = pending es"

fun callName :: "call \<Rightarrow> string" where
  "callName (Build source dest amt) = ''buildPaymentTransaction''"
| "callName (Sign xdr opts) = ''signTransaction''"
| "callName (Submit xdr) = ''submitTransaction''"

definition notifications :: "event list \<Rightarrow> nat" where
  "notifications es = length (filter (\<lambda>e. e = Notify) es)"

text \<open>The world at the start of a run of the handler: nothing logged yet.\<close>

definition start :: "ui_state \<Rightarrow> 'p \<Rightarrow> 'p world" where
  "start s p = \<lparr>ui = s, parent = p, trace = []\<rparr>"

text \<open>
  The states the handler passes through, from the state \<open>s\<close> it starts in: the one shown
  while a call is pending under the step \<open>st\<close>, the one it ends in after a throw with the
  message \<open>m\<close>, and the one it ends in after a submission with the result hash \<open>h\<close>.
\<close>

definition pendingState :: "string \<Rightarrow> ui_state \<Rightarrow> ui_state" where
  "pendingState st s = s\<lparr>isLoading := True, error := None, success := None, step := st\<rparr>"

definition failedState :: "string \<Rightarrow> ui_state \<Rightarrow> ui_state" where
  "failedState m s = s\<lparr>isLoading := False, error := Some m, success := None, step := ''input''\<rparr>"

definition successState :: "'p env \<Rightarrow> string option \<Rightarrow> ui_state \<Rightarrow> ui_state" where
  "successState env h s =
     s\<lparr>destination := [], amount := [], isLoading := False, error := None,
       success := Some \<lparr>success_hash = h, explorerUrl = getExplorerUrl env h\<rparr>,
       step := ''input''\<rparr>"

text \<open>
  Modelled from the spec: the body of \<^verbatim>\<open>isValidPublicKey\<close>, exported by
  \<^verbatim>\<open>@/stellar/stellarClient\<close>, is not among the sources. The spec (sections 3 and
  4.1) describes the AddressValidator as a pure predicate that accepts exactly the
  strings of the fixed length, with the fixed prefix character and a valid checksum
  encoding; the component's own message (line 58) gives the length 56 and the prefix
  \<^verbatim>\<open>G\<close>. The spec does not describe the checksum encoding, which stays a parameter.
\<close>

definition AddressValidator :: "(string \<Rightarrow> bool) \<Rightarrow> string \<Rightarrow> bool" where
  "AddressValidator checksumValid s =
     (length s = 56 \<and> hd s = CHR ''G'' \<and> checksumValid s)"

text \<open>
  The validation rules, as section 4.5 of the specification lists them (an address that
  is empty, invalid or the sender's own; an amount that is missing, not positive or below
  the minimum), each with the condition under which an input violates it and the message
  the source gives for it. The conditions on the amount are on the Number that
  \<^verbatim>\<open>parseFloat\<close> reads from the field.
\<close>

datatype rule =
  EmptyAddress | InvalidAddress | SelfSend | MissingAmount | NonPositiveAmount | BelowMinimum

fun violates :: "rule \<Rightarrow> 'p env \<Rightarrow> ui_state \<Rightarrow> bool" where
  "violates EmptyAddress env s = (trim (destination s) = [])"
| "violates InvalidAddress env s = (\<not> isValidPublicKey env (trim (destination s)))"
| "violates SelfSend env s = (trim (destination s) = publicKey env)"
| "violates MissingAmount env s = (trim (amount s) = [])"
| "violates NonPositiveAmount env s =
     (isNaN (parseFloat (amount s)) \<or> js_le (parseFloat (amount s)) (Fin 0))"
| "violates BelowMinimum env s = js_lt (parseFloat (amount s)) minimumAmount"

fun ruleMessage :: "rule \<Rightarrow> string" where
  "ruleMessage EmptyAddress = ''Destination address is required''"
| "ruleMessage InvalidAddress =
     ''Invalid Stellar address format. Must start with 'G' and be 56 characters.''"
| "ruleMessage SelfSend = ''Cannot send to your own address''"
| "ruleMessage MissingAmount = ''Amount is required''"
| "ruleMessage NonPositiveAmount = ''Amount must be a positive number''"
| "ruleMessage BelowMinimum = ''Amount is below minimum (0.0000001 XLM)''"

text \<open>
  A run has failed at Validating when it ends with an error shown and has awaited no call.
\<close>

definition failedAtValidating :: "'p env \<Rightarrow> ui_state \<Rightarrow> 'p \<Rightarrow> bool" where
  "failedAtValidating env s p =
     (error (ui (handleSendPayment env (start s p))) \<noteq> None
      \<and> calls (trace (handleSendPayment env (start s p))) = [])"


text \<open>
  A decimal quantity is expressible with \<open>n\<close> fractional digits when shifting it by \<open>n\<close>
  decimal places gives an integer.
\<close>

definition withinPrecision :: "nat \<Rightarrow> rat \<Rightarrow> bool" where
  "withinPrecision n x = (of_int \<lfloor>x * 10 ^ n\<rfloor> = x * 10 ^ n)"

section \<open>A concrete setting\<close>

text \<open>
  Two testnet accounts, collaborators that all succeed (the submission result carries
  the hash \<^verbatim>\<open>abc123\<close>), the wiring of \<^verbatim>\<open>Index.tsx\<close>, and a filled-in form.
\<close>

definition sourceKey :: string where
  "sourceKey = ''GAAZI4TCR3TY5OJHCTJC2A4QSY6CJWJH5IAJTGKIN2ER7LBNVKOCCWN7''"

definition destKey :: string where
  "destKey = ''GBRPYHIL2CI3FNQ4BXLFMNDLFJUNPU2HY3ZMFSHONUCEOASW7QC7OX2H''"

definition testnetEnv :: "nat env" where
  "testnetEnv =
     \<lparr>publicKey = sourceKey,
      onTransactionComplete = Some handleTransactionComplete,
      isValidPublicKey = (\<lambda>s. length s = 56 \<and> hd s = CHR ''G''),
      buildPaymentTransaction = (\<lambda>source dest amt. Resolves ''unsigned-envelope''),
      signTransaction = (\<lambda>xdr opts. Resolves (Some ''signed-envelope'')),
      submitTransaction = (\<lambda>xdr. Resolves \<lparr>hash = Some ''abc123''\<rparr>),
      getExplorerUrl = (\<lambda>h. ''https://stellar.expert/explorer/testnet/tx/''
                            @ (case h of None \<Rightarrow> ''undefined'' | Some x \<Rightarrow> x)),
      NETWORK_PASSPHRASE = ''Test SDF Network ; September 2015''\<rparr>"

definition cancellingEnv :: "nat env" where
  "cancellingEnv = testnetEnv\<lparr>signTransaction := (\<lambda>xdr opts. Resolves None)\<rparr>"

definition filledForm :: "string \<Rightarrow> string \<Rightarrow> ui_state" where
  "filledForm dest amt =
     \<lparr>destination = dest, amount = amt, isLoading = False, error = None, success = None,
      step = ''input''\<rparr>"

section \<open>Properties\<close>

subsection \<open>The binary exponent\<close>

text \<open>\<open>ilog2 x\<close> is the exponent of the power of two at or just below a positive \<open>x\<close>.\<close>

lemma bitlen_rat_bounds:
  assumes "0 < (a::int)"
  shows "power_int 2 (bitlen a - 1) \<le> (of_int a :: rat) \<and> (of_int a :: rat) < power_int 2 (bitlen a)"
proof -
  from assms have l: "1 \<le> bitlen a"
    by (auto simp add: bitlen_alt_def)
  from bitlen_bounds [OF assms] have "(2::int) ^ nat (bitlen a - 1) \<le> a" "a < 2 ^ nat (bitlen a)"
    by simp_all
  then have "(of_int ((2::int) ^ nat (bitlen a - 1)) :: rat) \<le> of_int a"
    "(of_int a :: rat) < of_int (2 ^ nat (bitlen a))"
    by (simp_all only: of_int_le_iff of_int_less_iff)
  with l show ?thesis
    by (simp add: power_int_def)
qed

lemma ilog2_bounds:
  assumes "0 < x"
  shows "power_int 2 (ilog2 x) \<le> x \<and> x < power_int 2 (ilog2 x + 1)"
proof -
  obtain a b where q: "quotient_of x = (a, b)"
    by force
  then have b: "0 < b" and x: "x = of_int a / of_int b"
    by (simp_all add: quotient_of_denom_pos quotient_of_div)
  from assms x b have a: "0 < a"
    by (simp add: zero_less_divide_iff)
  define k where "k = bitlen a - bitlen b"
  have p2: "(0::rat) < power_int 2 n" for n
    by (simp add: zero_less_power_int)
  from bitlen_rat_bounds [OF a] bitlen_rat_bounds [OF b]
  have la: "power_int 2 (bitlen a - 1) \<le> (of_int a :: rat)" "(of_int a :: rat) < power_int 2 (bitlen a)"
    and lb: "power_int 2 (bitlen b - 1) \<le> (of_int b :: rat)" "(of_int b :: rat) < power_int 2 (bitlen b)"
    by simp_all
  have bpos: "(0::rat) < of_int b"
    using b by simp
  have "x < power_int 2 (bitlen a) / power_int 2 (bitlen b - 1)"
    unfolding x using la(2) lb(1) bpos p2 [of "bitlen b - 1"] a
    by (intro frac_less) simp_all
  also have "\<dots> = power_int 2 (k + 1)"
    by (simp add: k_def power_int_diff [symmetric] algebra_simps)
  finally have upper: "x < power_int 2 (k + 1)" .
  have "power_int 2 (bitlen a - 1) / power_int 2 (bitlen b) < x"
    unfolding x using la(1) lb(2) bpos p2 [of "bitlen a - 1"]
    by (intro frac_less2) simp_all
  moreover have "power_int 2 (bitlen a - 1) / power_int 2 (bitlen b) = (power_int 2 (k - 1) :: rat)"
    by (simp add: k_def power_int_diff [symmetric] algebra_simps)
  ultimately have lower: "power_int 2 (k - 1) < x"
    by simp
  show ?thesis
  proof (cases "power_int 2 k \<le> x")
    case True
    with upper q show ?thesis
      by (simp add: ilog2_def k_def Let_def)
  next
    case False
    with lower q show ?thesis
      by (simp add: ilog2_def k_def Let_def)
  qed
qed

subsection \<open>Evaluating the numbers of the concrete setting\<close>

lemmas setter_defs = setDestination_def setAmount_def setIsLoading_def setError_def
  setSuccess_def setStep_def await_def consoleError_def notifyParent_def

lemmas flow_defs = handleSendPayment_def tryBlock_def signPart_def submitPart_def
  catchBlock_def finallyBlock_def start_def

lemma toDouble_finite:
  assumes "x \<noteq> 0"
    and "of_int (roundHalfEven (x / power_int 2 (max (ilog2 x) (- 1022) - 52)))
           * power_int 2 (max (ilog2 x) (- 1022) - 52) = r"
    and "r < 1024"
  shows "toDouble x = Fin r"
proof -
  have "(1024::rat) \<le> 2 ^ 1024"
    by simp
  with assms(3) have "\<not> 2 ^ 1024 \<le> r"
    by linarith
  with assms(1,2) show ?thesis
    by (simp add: toDouble_def Let_def)
qed

lemma minimumAmount_value:
  "minimumAmount = Fin (944473296573929 / 9444732965739290427392)"
  unfolding minimumAmount_def by (rule toDouble_finite; code_simp)

lemma parseFloat_10: "parseFloat ''10'' = Fin 10"
proof -
  have "trimStart ''10'' = ''10''"
    by code_simp
  moreover have "strUnsignedDecimalLiteral ''10'' = MV 10"
    by code_simp
  moreover have "toDouble 10 = Fin 10"
    by (rule toDouble_finite; code_simp)
  ultimately show ?thesis
    by (simp add: parseFloat_def)
qed

lemma parseFloat_0: "parseFloat ''0'' = Fin 0"
  by code_simp

lemma parseFloat_half_unit:
  "parseFloat ''0.00000005'' = Fin (944473296573929 / 18889465931478580854784)"
proof -
  have "trimStart ''0.00000005'' = ''0.00000005''"
    by code_simp
  moreover have "strUnsignedDecimalLiteral ''0.00000005'' = MV (1 / 20000000)"
    by code_simp
  moreover have "toDouble (1 / 20000000) = Fin (944473296573929 / 18889465931478580854784)"
    by (rule toDouble_finite; code_simp)
  ultimately show ?thesis
    by (simp add: parseFloat_def)
qed

lemma literal_8_digits:
  "strUnsignedDecimalLiteral ''1.12345678'' = MV (112345678 / 100000000)"
  by code_simp

lemma parseFloat_8_digits:
  "parseFloat ''1.12345678'' = Fin (5059599535774857 / 4503599627370496)"
proof -
  have "trimStart ''1.12345678'' = ''1.12345678''"
    by code_simp
  moreover have "toDouble (112345678 / 100000000)
      = Fin (5059599535774857 / 4503599627370496)"
    by (rule toDouble_finite; code_simp)
  ultimately show ?thesis
    by (simp add: parseFloat_def literal_8_digits)
qed

text \<open>
  Rounding, not the decimal text, decides the comparison with the minimum: a text that
  lies below \<^verbatim>\<open>0.0000001\<close> by less than half a unit in the last place is read as the
  same Number.
\<close>

lemma near_minimum_rounds_to_minimum:
  "parseFloat ''0.00000009999999999999999999'' = minimumAmount"
proof -
  have "trimStart ''0.00000009999999999999999999'' = ''0.00000009999999999999999999''"
    by code_simp
  moreover have "strUnsignedDecimalLiteral ''0.00000009999999999999999999''
      = MV (9999999999999999999 / 100000000000000000000000000)"
    by code_simp
  moreover have "toDouble (9999999999999999999 / 100000000000000000000000000)
      = Fin (944473296573929 / 9444732965739290427392)"
    by (rule toDouble_finite; code_simp)
  ultimately show ?thesis
    by (simp add: parseFloat_def minimumAmount_value)
qed

lemma trim_destKey: "trim destKey = destKey"
  by code_simp

lemma destKey_shape:
  "length destKey = 56 \<and> hd destKey = CHR ''G'' \<and> destKey \<noteq> sourceKey \<and> destKey \<noteq> []"
  by (simp add: destKey_def sourceKey_def)

lemma trim_10: "trim ''10'' = ''10''"
  by code_simp

lemma validateInputs_testnetEnv:
  "validateInputs testnetEnv (filledForm destKey ''10'') = Inr True"
  by (simp add: validateInputs_def testnetEnv_def filledForm_def trim_destKey destKey_shape
      trim_10 parseFloat_10 minimumAmount_value isNaN_def js_le_def)

subsection \<open>The six ways a run of the handler can go\<close>

lemmas state_defs = pendingState_def failedState_def successState_def

lemma run_invalid:
  assumes "validateInputs env (ui w) = Inl e"
  shows "handleSendPayment env w =
    w\<lparr>ui := failedState (messageOrDefault e) (ui w), trace := trace w @ [ConsoleError e]\<rparr>"
  using assms by (simp add: flow_defs setter_defs state_defs)

lemma run_build_rejected:
  assumes "validateInputs env (ui w) = Inr ok"
    and "buildPaymentTransaction env (publicKey env) (trim (destination (ui w)))
           (trim (amount (ui w))) = Rejects e"
  shows "handleSendPayment env w =
    w\<lparr>ui := failedState (messageOrDefault e) (ui w),
      trace := trace w @
        [Await (Build (publicKey env) (trim (destination (ui w))) (trim (amount (ui w))))
           (pendingState ''signing'' (ui w)),
         ConsoleError e]\<rparr>"
  using assms by (simp add: flow_defs setter_defs state_defs)

lemma run_sign_rejected:
  assumes "validateInputs env (ui w) = Inr ok"
    and "buildPaymentTransaction env (publicKey env) (trim (destination (ui w)))
           (trim (amount (ui w))) = Resolves xdr"
    and "signTransaction env xdr (signOptions env) = Rejects e"
  shows "handleSendPayment env w =
    w\<lparr>ui := failedState (messageOrDefault e) (ui w),
      trace := trace w @
        [Await (Build (publicKey env) (trim (destination (ui w))) (trim (amount (ui w))))
           (pendingState ''signing'' (ui w)),
         Await (Sign xdr (signOptions env)) (pendingState ''signing'' (ui w)),
         ConsoleError e]\<rparr>"
  using assms by (simp add: flow_defs setter_defs state_defs)

lemma run_cancelled:
  assumes "validateInputs env (ui w) = Inr ok"
    and "buildPaymentTransaction env (publicKey env) (trim (destination (ui w)))
           (trim (amount (ui w))) = Resolves xdr"
    and "signTransaction env xdr (signOptions env) = Resolves signedXDR"
    and "noSignature signedXDR"
  shows "handleSendPayment env w =
    w\<lparr>ui := failedState ''Transaction signing was cancelled'' (ui w),
      trace := trace w @
        [Await (Build (publicKey env) (trim (destination (ui w))) (trim (amount (ui w))))
           (pendingState ''signing'' (ui w)),
         Await (Sign xdr (signOptions env)) (pendingState ''signing'' (ui w)),
         ConsoleError (Thrown (Some ''Transaction signing was cancelled''))]\<rparr>"
  using assms by (simp add: flow_defs setter_defs state_defs messageOrDefault_def)

lemma run_submit_rejected:
  assumes "validateInputs env (ui w) = Inr ok"
    and "buildPaymentTransaction env (publicKey env) (trim (destination (ui w)))
           (trim (amount (ui w))) = Resolves xdr"
    and "signTransaction env xdr (signOptions env) = Resolves signedXDR"
    and "\<not> noSignature signedXDR"
    and "submitTransaction env (the signedXDR) = Rejects e"
  shows "handleSendPayment env w =
    w\<lparr>ui := failedState (messageOrDefault e) (ui w),
      trace := trace w @
        [Await (Build (publicKey env) (trim (destination (ui w))) (trim (amount (ui w))))
           (pendingState ''signing'' (ui w)),
         Await (Sign xdr (signOptions env)) (pendingState ''signing'' (ui w)),
         Await (Submit (the signedXDR)) (pendingState ''submitting'' (ui w)),
         ConsoleError e]\<rparr>"
  using assms by (simp add: flow_defs setter_defs state_defs)

lemma run_submitted:
  assumes "validateInputs env (ui w) = Inr ok"
    and "buildPaymentTransaction env (publicKey env) (trim (destination (ui w)))
           (trim (amount (ui w))) = Resolves xdr"
    and "signTransaction env xdr (signOptions env) = Resolves signedXDR"
    and "\<not> noSignature signedXDR"
    and "submitTransaction env (the signedXDR) = Resolves result"
  shows "handleSendPayment env w =
    notifyParent env
     (w\<lparr>ui := successState env (hash result) (ui w),
        trace := trace w @
        [Await (Build (publicKey env) (trim (destination (ui w))) (trim (amount (ui w))))
           (pendingState ''signing'' (ui w)),
         Await (Sign xdr (signOptions env)) (pendingState ''signing'' (ui w)),
         Await (Submit (the signedXDR)) (pendingState ''submitting'' (ui w))]\<rparr>)"
  using assms by (simp add: flow_defs setter_defs state_defs split: option.splits)


lemma run_outcome [case_names invalid build_rejected sign_rejected cancelled submit_rejected submitted]:
  obtains
    (invalid) e where "validateInputs env (ui w) = Inl e"
      and "handleSendPayment env w =
        w\<lparr>ui := failedState (messageOrDefault e) (ui w), trace := trace w @ [ConsoleError e]\<rparr>"
  | (build_rejected) e where
      "handleSendPayment env w =
        w\<lparr>ui := failedState (messageOrDefault e) (ui w),
          trace := trace w @
            [Await (Build (publicKey env) (trim (destination (ui w))) (trim (amount (ui w))))
               (pendingState ''signing'' (ui w)),
             ConsoleError e]\<rparr>"
  | (sign_rejected) xdr e where
      "handleSendPayment env w =
        w\<lparr>ui := failedState (messageOrDefault e) (ui w),
          trace := trace w @
            [Await (Build (publicKey env) (trim (destination (ui w))) (trim (amount (ui w))))
               (pendingState ''signing'' (ui w)),
             Await (Sign xdr (signOptions env)) (pendingState ''signing'' (ui w)),
             ConsoleError e]\<rparr>"
  | (cancelled) xdr where
      "handleSendPayment env w =
        w\<lparr>ui := failedState ''Transaction signing was cancelled'' (ui w),
          trace := trace w @
            [Await (Build (publicKey env) (trim (destination (ui w))) (trim (amount (ui w))))
               (pendingState ''signing'' (ui w)),
             Await (Sign xdr (signOptions env)) (pendingState ''signing'' (ui w)),
             ConsoleError (Thrown (Some ''Transaction signing was cancelled''))]\<rparr>"
  | (submit_rejected) xdr signedXDR e where
      "handleSendPayment env w =
        w\<lparr>ui := failedState (messageOrDefault e) (ui w),
          trace := trace w @
            [Await (Build (publicKey env) (trim (destination (ui w))) (trim (amount (ui w))))
               (pendingState ''signing'' (ui w)),
             Await (Sign xdr (signOptions env)) (pendingState ''signing'' (ui w)),
             Await (Submit signedXDR) (pendingState ''submitting'' (ui w)),
             ConsoleError e]\<rparr>"
  | (submitted) xdr signedXDR and result :: submit_result where
      "handleSendPayment env w =
        notifyParent env
         (w\<lparr>ui := successState env (hash result) (ui w),
            trace := trace w @
            [Await (Build (publicKey env) (trim (destination (ui w))) (trim (amount (ui w))))
               (pendingState ''signing'' (ui w)),
             Await (Sign xdr (signOptions env)) (pendingState ''signing'' (ui w)),
             Await (Submit signedXDR) (pendingState ''submitting'' (ui w))]\<rparr>)"
proof (cases "validateInputs env (ui w)")
  case (Inl e)
  show ?thesis
    by (rule invalid [OF Inl run_invalid [OF Inl]])
next
  case (Inr ok)
  show ?thesis
  proof (cases "buildPaymentTransaction env (publicKey env) (trim (destination (ui w)))
           (trim (amount (ui w)))")
    case (Rejects e)
    show ?thesis
      by (rule build_rejected [OF run_build_rejected [OF Inr Rejects]])
  next
    case build: (Resolves xdr)
    show ?thesis
    proof (cases "signTransaction env xdr (signOptions env)")
      case (Rejects e)
      show ?thesis
        by (rule sign_rejected [OF run_sign_rejected [OF Inr build Rejects]])
    next
      case sign: (Resolves signedXDR)
      show ?thesis
      proof (cases "noSignature signedXDR")
        case True
        show ?thesis
          by (rule cancelled [OF run_cancelled [OF Inr build sign True]])
      next
        case False
        show ?thesis
        proof (cases "submitTransaction env (the signedXDR)")
          case (Rejects e)
          show ?thesis
            by (rule submit_rejected [OF run_submit_rejected [OF Inr build sign False Rejects]])
        next
          case (Resolves result)
          show ?thesis
            by (rule submitted [OF run_submitted [OF Inr build sign False Resolves]])
        qed
      qed
    qed
  qed
qed

subsection \<open>Traces\<close>

lemma notifyParent_ui: "ui (notifyParent env w) = ui w"
  by (simp add: notifyParent_def split: option.splits)

lemma calls_append: "calls (xs @ ys) = calls xs @ calls ys"
  by (induction xs rule: calls.induct) simp_all

lemma pending_append: "pending (xs @ ys) = pending xs @ pending ys"
  by (induction xs rule: pending.induct) simp_all

lemma calls_notifyParent: "calls (trace (notifyParent env w)) = calls (trace w)"
  by (simp add: notifyParent_def calls_append split: option.splits)

lemma pending_notifyParent: "pending (trace (notifyParent env w)) = pending (trace w)"
  by (simp add: notifyParent_def pending_append split: option.splits)

lemma ruleMessage_inject: "ruleMessage r' = ruleMessage r \<Longrightarrow> r' = r"
  by (cases r; cases r'; simp)

lemma validateInputs_rule:
  assumes "violates r0 env s"
  shows "\<exists>r. violates r env s \<and> validateInputs env s = Inl (Thrown (Some (ruleMessage r)))"
proof -
  consider (a) "violates EmptyAddress env s"
    | (b) "\<not> violates EmptyAddress env s" "violates InvalidAddress env s"
    | (c) "\<not> violates EmptyAddress env s" "\<not> violates InvalidAddress env s" "violates SelfSend env s"
    | (d) "\<not> violates EmptyAddress env s" "\<not> violates InvalidAddress env s" "\<not> violates SelfSend env s"
          "violates MissingAmount env s"
    | (e) "\<not> violates EmptyAddress env s" "\<not> violates InvalidAddress env s" "\<not> violates SelfSend env s"
          "\<not> violates MissingAmount env s" "violates NonPositiveAmount env s"
    | (f) "\<not> violates EmptyAddress env s" "\<not> violates InvalidAddress env s" "\<not> violates SelfSend env s"
          "\<not> violates MissingAmount env s" "\<not> violates NonPositiveAmount env s" "violates BelowMinimum env s"
    using assms by (cases r0) blast+
  then show ?thesis
  proof cases
    case a
    then have "validateInputs env s = Inl (Thrown (Some (ruleMessage EmptyAddress)))"
      by (simp add: validateInputs_def)
    with a show ?thesis by blast
  next
    case b
    then have "validateInputs env s = Inl (Thrown (Some (ruleMessage InvalidAddress)))"
      by (simp add: validateInputs_def)
    with b show ?thesis by blast
  next
    case c
    then have "validateInputs env s = Inl (Thrown (Some (ruleMessage SelfSend)))"
      by (simp add: validateInputs_def)
    with c show ?thesis by blast
  next
    case d
    then have "validateInputs env s = Inl (Thrown (Some (ruleMessage MissingAmount)))"
      by (simp add: validateInputs_def)
    with d show ?thesis by blast
  next
    case e
    then have "validateInputs env s = Inl (Thrown (Some (ruleMessage NonPositiveAmount)))"
      by (simp add: validateInputs_def)
    with e show ?thesis by blast
  next
    case f
    then have "validateInputs env s = Inl (Thrown (Some (ruleMessage BelowMinimum)))"
      by (simp add: validateInputs_def)
    with f show ?thesis by blast
  qed
qed

lemma ruleMessage_shown: "messageOrDefault (Thrown (Some (ruleMessage r))) = ruleMessage r"
  by (cases r) (simp_all add: messageOrDefault_def)

lemma run_rule:
  assumes "validateInputs env s = Inl (Thrown (Some (ruleMessage r)))"
  shows "handleSendPayment env (start s p) =
    \<lparr>ui = failedState (ruleMessage r) s, parent = p,
     trace = [ConsoleError (Thrown (Some (ruleMessage r)))]\<rparr>"
proof -
  have "validateInputs env (ui (start s p)) = Inl (Thrown (Some (ruleMessage r)))"
    using assms by (simp add: start_def)
  from run_invalid [OF this] show ?thesis
    by (simp add: ruleMessage_shown start_def)
qed

subsection \<open>White space and the sign of a parsed amount\<close>

lemma foldl_digits_nonneg:
  "0 \<le> a \<Longrightarrow> \<forall>c\<in>set ds. isDecimalDigit c \<Longrightarrow>
     0 \<le> foldl (\<lambda>n c. 10 * n + (of_char c - 48)) (a::int) ds"
  by (induction ds arbitrary: a) (auto simp add: isDecimalDigit_def)

lemma digitsValue_nonneg: "\<forall>c\<in>set ds. isDecimalDigit c \<Longrightarrow> 0 \<le> digitsValue ds"
  unfolding digitsValue_def by (rule foldl_digits_nonneg) simp_all

lemma digitsValue_takeWhile: "0 \<le> digitsValue (takeWhile isDecimalDigit s)"
  by (rule digitsValue_nonneg) (auto dest: set_takeWhileD)

lemma digitsValue_takeWhile2:
  "0 \<le> digitsValue (takeWhile isDecimalDigit s @ takeWhile isDecimalDigit s')"
  by (rule digitsValue_nonneg) (auto dest: set_takeWhileD)

lemma literal_nonneg:
  assumes "strUnsignedDecimalLiteral r = MV x"
  shows "0 \<le> x"
proof -
  have p: "0 \<le> (of_int (digitsValue ds) :: rat) * power_int 10 k" if "0 \<le> digitsValue ds" for ds k
    using that by (simp add: zero_le_power_int)
  show ?thesis
    using assms p [OF digitsValue_takeWhile] p [OF digitsValue_takeWhile2] digitsValue_takeWhile
    by (auto simp add: strUnsignedDecimalLiteral_def Let_def split: if_splits list.splits)
qed

lemma roundHalfEven_nonneg: "0 \<le> y \<Longrightarrow> 0 \<le> roundHalfEven y"
  by (simp add: roundHalfEven_def Let_def)

lemma toDouble_nonneg:
  assumes "0 \<le> x"
  shows "toDouble x = PosInf \<or> (\<exists>r. toDouble x = Fin r \<and> 0 \<le> r)"
proof -
  have "0 \<le> x / power_int 2 k" for k
    using assms by (simp add: zero_le_power_int)
  then have "0 \<le> (of_int (roundHalfEven (x / power_int 2 k)) :: rat) * power_int 2 k" for k
    by (simp add: roundHalfEven_nonneg zero_le_power_int)
  then show ?thesis
    by (simp add: toDouble_def Let_def)
qed

lemma negated_literal:
  "isNaN (negate (toNumber (strUnsignedDecimalLiteral r)))
   \<or> js_le (negate (toNumber (strUnsignedDecimalLiteral r))) (Fin 0)"
proof (cases "strUnsignedDecimalLiteral r")
  case NoLiteral
  then show ?thesis by (simp add: isNaN_def)
next
  case Infinity
  then show ?thesis by (simp add: js_le_def)
next
  case (MV x)
  with literal_nonneg have "0 \<le> x" by blast
  from toDouble_nonneg [OF this] MV show ?thesis
    by (auto simp add: js_le_def)
qed

lemma parseFloat_leading_minus:
  assumes "trimStart a = CHR ''-'' # r"
  shows "isNaN (parseFloat a) \<or> js_le (parseFloat a) (Fin 0)"
  using assms negated_literal [of r] by (simp add: parseFloat_def)

lemma trimStart_head: "trimStart a = c # r \<Longrightarrow> \<not> isWhiteSpace c"
  unfolding trimStart_def by (metis hd_dropWhile list.sel(1) list.distinct(1))

lemma trim_eq_Nil: "trim a = [] \<longleftrightarrow> trimStart a = []"
proof
  assume "trim a = []"
  then have all: "\<forall>x\<in>set (trimStart a). isWhiteSpace x"
    by (simp add: trim_def trimEnd_def dropWhile_eq_Nil_conv)
  show "trimStart a = []"
  proof (cases "trimStart a")
    case Nil
    then show ?thesis .
  next
    case (Cons c r)
    with trimStart_head have "\<not> isWhiteSpace c" by blast
    with all Cons show ?thesis by simp
  qed
next
  assume "trimStart a = []"
  then show "trim a = []" by (simp add: trim_def trimEnd_def)
qed

lemma blank_parses_to_NaN: "trim a = [] \<Longrightarrow> parseFloat a = NaN"
  by (simp add: trim_eq_Nil parseFloat_def)

subsection \<open>Runs in the concrete setting\<close>

lemma validateInputs_cancellingEnv:
  "validateInputs cancellingEnv (filledForm destKey ''10'') = Inr True"
  by (simp add: validateInputs_def cancellingEnv_def testnetEnv_def filledForm_def trim_destKey
      destKey_shape trim_10 parseFloat_10 minimumAmount_value isNaN_def js_le_def)

lemma testnet_build:
  "buildPaymentTransaction testnetEnv (publicKey testnetEnv)
     (trim (destination (filledForm destKey ''10''))) (trim (amount (filledForm destKey ''10'')))
   = Resolves ''unsigned-envelope''"
  by (simp add: testnetEnv_def)

lemma cancelling_build:
  "buildPaymentTransaction cancellingEnv (publicKey cancellingEnv)
     (trim (destination (filledForm destKey ''10''))) (trim (amount (filledForm destKey ''10'')))
   = Resolves ''unsigned-envelope''"
  by (simp add: cancellingEnv_def testnetEnv_def)

lemma cancelling_sign:
  "signTransaction cancellingEnv ''unsigned-envelope'' (signOptions cancellingEnv) = Resolves None"
  by (simp add: cancellingEnv_def)

lemma testnet_sign:
  "signTransaction testnetEnv ''unsigned-envelope'' (signOptions testnetEnv)
   = Resolves (Some ''signed-envelope'')"
  by (simp add: testnetEnv_def)

lemma testnet_submit:
  "submitTransaction testnetEnv (the (Some ''signed-envelope'')) = Resolves \<lparr>hash = Some ''abc123''\<rparr>"
  by (simp add: testnetEnv_def)

lemma testnet_run:
  "handleSendPayment testnetEnv (start (filledForm destKey ''10'') 0) =
     \<lparr>ui = successState testnetEnv (Some ''abc123'') (filledForm destKey ''10''),
      parent = 1,
      trace =
        [Await (Build sourceKey destKey ''10'') (pendingState ''signing'' (filledForm destKey ''10'')),
         Await (Sign ''unsigned-envelope'' (signOptions testnetEnv))
           (pendingState ''signing'' (filledForm destKey ''10'')),
         Await (Submit ''signed-envelope'') (pendingState ''submitting'' (filledForm destKey ''10'')),
         Notify]\<rparr>"
proof -
  have v: "validateInputs testnetEnv (ui (start (filledForm destKey ''10'') (0::nat))) = Inr True"
    by (simp add: start_def validateInputs_testnetEnv)
  have b: "buildPaymentTransaction testnetEnv (publicKey testnetEnv)
      (trim (destination (ui (start (filledForm destKey ''10'') (0::nat)))))
      (trim (amount (ui (start (filledForm destKey ''10'') (0::nat))))) = Resolves ''unsigned-envelope''"
    by (simp add: start_def testnet_build)
  have n: "\<not> noSignature (Some ''signed-envelope'')"
    by (simp add: noSignature_def)
  have pk: "publicKey testnetEnv = sourceKey"
    and cb: "onTransactionComplete testnetEnv = Some handleTransactionComplete"
    by (simp_all add: testnetEnv_def)
  have "destination (filledForm destKey ''10'') = destKey"
    and "amount (filledForm destKey ''10'') = ''10''"
    by (simp_all add: filledForm_def)
  then show ?thesis
    unfolding run_submitted [OF v b testnet_sign n testnet_submit]
    by (simp add: start_def notifyParent_def handleTransactionComplete_def trim_destKey trim_10
        pk cb)
qed

lemma cancelled_run:
  "handleSendPayment cancellingEnv (start (filledForm destKey ''10'') 0) =
     \<lparr>ui = failedState ''Transaction signing was cancelled'' (filledForm destKey ''10''),
      parent = 0,
      trace =
        [Await (Build sourceKey destKey ''10'') (pendingState ''signing'' (filledForm destKey ''10'')),
         Await (Sign ''unsigned-envelope'' (signOptions cancellingEnv))
           (pendingState ''signing'' (filledForm destKey ''10'')),
         ConsoleError (Thrown (Some ''Transaction signing was cancelled''))]\<rparr>"
proof -
  have v: "validateInputs cancellingEnv (ui (start (filledForm destKey ''10'') (0::nat))) = Inr True"
    by (simp add: start_def validateInputs_cancellingEnv)
  have b: "buildPaymentTransaction cancellingEnv (publicKey cancellingEnv)
      (trim (destination (ui (start (filledForm destKey ''10'') (0::nat)))))
      (trim (amount (ui (start (filledForm destKey ''10'') (0::nat))))) = Resolves ''unsigned-envelope''"
    by (simp add: start_def cancelling_build)
  have n: "noSignature None"
    by (simp add: noSignature_def)
  have pk: "publicKey cancellingEnv = sourceKey"
    by (simp add: cancellingEnv_def testnetEnv_def)
  have "destination (filledForm destKey ''10'') = destKey"
    and "amount (filledForm destKey ''10'') = ''10''"
    by (simp_all add: filledForm_def)
  then show ?thesis
    unfolding run_cancelled [OF v b cancelling_sign n]
    by (simp add: start_def trim_destKey trim_10 pk)
qed

lemma trim_Nil: "trim [] = []"
  by (simp add: trim_def trimEnd_def trimStart_def)

subsection \<open>Validation rules and further inputs\<close>

lemma trim_sourceKey: "trim sourceKey = sourceKey"
  by code_simp

lemma sourceKey_shape: "length sourceKey = 56 \<and> hd sourceKey = CHR ''G'' \<and> sourceKey \<noteq> []"
  by (simp add: sourceKey_def)

lemma rule_failure:
  assumes "violates r0 env s"
  shows "\<exists>r. violates r env s
       \<and> validateInputs env s = Inl (Thrown (Some (ruleMessage r)))
       \<and> handleSendPayment env (start s p) =
           \<lparr>ui = failedState (ruleMessage r) s, parent = p,
            trace = [ConsoleError (Thrown (Some (ruleMessage r)))]\<rparr>"
proof -
  from validateInputs_rule [OF assms] obtain r where r: "violates r env s"
    and v: "validateInputs env s = Inl (Thrown (Some (ruleMessage r)))"
    by blast
  from r v run_rule [OF v, of p] show ?thesis
    by (intro exI [of _ r] conjI)
qed

lemma ruleMessage_nonempty: "ruleMessage r \<noteq> []"
  by (cases r) simp_all

lemma no_violation_accepted:
  assumes "\<not> (\<exists>r. violates r env s)"
  shows "validateInputs env s = Inr True"
proof -
  have "\<not> violates EmptyAddress env s" "\<not> violates InvalidAddress env s"
    "\<not> violates SelfSend env s" "\<not> violates MissingAmount env s"
    "\<not> violates NonPositiveAmount env s" "\<not> violates BelowMinimum env s"
    using assms by blast+
  then show ?thesis
    by (simp add: validateInputs_def)
qed

lemma trim_8_digits: "trim ''1.12345678'' = ''1.12345678''"
  by code_simp

lemma validateInputs_8_digits:
  "validateInputs testnetEnv (filledForm destKey ''1.12345678'') = Inr True"
  by (simp add: validateInputs_def testnetEnv_def filledForm_def trim_destKey destKey_shape
      trim_8_digits parseFloat_8_digits minimumAmount_value isNaN_def js_le_def)

lemma testnet_run_amount:
  assumes "validateInputs testnetEnv (filledForm destKey a) = Inr True"
  shows "handleSendPayment testnetEnv (start (filledForm destKey a) 0) =
     \<lparr>ui = successState testnetEnv (Some ''abc123'') (filledForm destKey a),
      parent = 1,
      trace =
        [Await (Build sourceKey destKey (trim a)) (pendingState ''signing'' (filledForm destKey a)),
         Await (Sign ''unsigned-envelope'' (signOptions testnetEnv))
           (pendingState ''signing'' (filledForm destKey a)),
         Await (Submit ''signed-envelope'') (pendingState ''submitting'' (filledForm destKey a)),
         Notify]\<rparr>"
proof -
  have v: "validateInputs testnetEnv (ui (start (filledForm destKey a) (0::nat))) = Inr True"
    by (simp add: start_def assms)
  have b: "buildPaymentTransaction testnetEnv (publicKey testnetEnv)
      (trim (destination (ui (start (filledForm destKey a) (0::nat)))))
      (trim (amount (ui (start (filledForm destKey a) (0::nat))))) = Resolves ''unsigned-envelope''"
    by (simp add: testnetEnv_def)
  have n: "\<not> noSignature (Some ''signed-envelope'')"
    by (simp add: noSignature_def)
  have pk: "publicKey testnetEnv = sourceKey"
    and cb: "onTransactionComplete testnetEnv = Some handleTransactionComplete"
    by (simp_all add: testnetEnv_def)
  have "destination (filledForm destKey a) = destKey"
    and "amount (filledForm destKey a) = a"
    by (simp_all add: filledForm_def)
  then show ?thesis
    unfolding run_submitted [OF v b testnet_sign n testnet_submit]
    by (simp add: start_def notifyParent_def handleTransactionComplete_def trim_destKey pk cb)
qed

lemma trim_blank: "trim '' '' = []"
  by code_simp

lemma sourceKey_nonempty: "publicKey testnetEnv \<noteq> []"
  by (simp add: testnetEnv_def sourceKey_def)


subsection \<open>Which decimal amounts round below the minimum\<close>

lemma roundHalfEven_le:
  assumes "z \<le> of_int n"
  shows "roundHalfEven z \<le> n"
proof (cases "\<lfloor>z\<rfloor> = n")
  case True
  with assms have "z = of_int n"
    by (metis of_int_floor_le order_antisym)
  then show ?thesis
    by (simp add: roundHalfEven_def)
next
  case False
  from assms have "\<lfloor>z\<rfloor> \<le> n"
    by (simp add: floor_le_iff)
  with False have "\<lfloor>z\<rfloor> + 1 \<le> n"
    by simp
  then show ?thesis
    by (simp add: roundHalfEven_def Let_def)
qed

lemma roundHalfEven_ge:
  assumes "of_int n \<le> z"
  shows "n \<le> roundHalfEven z"
proof -
  from assms have "n \<le> \<lfloor>z\<rfloor>"
    by (simp add: le_floor_iff)
  then show ?thesis
    by (simp add: roundHalfEven_def Let_def)
qed

lemma roundHalfEven_less_even:
  assumes "even m"
  shows "roundHalfEven z < m \<longleftrightarrow> z < of_int m - 1 / 2"
proof
  assume less: "roundHalfEven z < m"
  show "z < of_int m - 1 / 2"
  proof (rule ccontr)
    assume "\<not> z < of_int m - 1 / 2"
    then have ge: "of_int m - 1 / 2 \<le> z"
      by simp
    show False
    proof (cases "of_int m \<le> z")
      case True
      from roundHalfEven_ge [OF this] less show False
        by simp
    next
      case False
      with ge have f: "\<lfloor>z\<rfloor> = m - 1"
        by (simp add: floor_eq_iff)
      then have odd: "odd \<lfloor>z\<rfloor>"
        using assms by simp
      from ge f have "1 / 2 \<le> z - of_int \<lfloor>z\<rfloor>"
        by simp
      with odd f have "roundHalfEven z = m"
        by (auto simp add: roundHalfEven_def Let_def)
      with less show False
        by simp
    qed
  qed
next
  assume lt: "z < of_int m - 1 / 2"
  then have "z < of_int m"
    by simp
  then have le: "\<lfloor>z\<rfloor> \<le> m - 1"
    by (simp add: floor_less_iff)
  show "roundHalfEven z < m"
  proof (cases "\<lfloor>z\<rfloor> = m - 1")
    case True
    with lt have "z - of_int \<lfloor>z\<rfloor> < 1 / 2"
      by simp
    with True show ?thesis
      by (simp add: roundHalfEven_def Let_def)
  next
    case False
    with le have "\<lfloor>z\<rfloor> + 1 < m"
      by simp
    then show ?thesis
      by (simp add: roundHalfEven_def Let_def)
  qed
qed

lemma ulp_multiples:
  fixes e :: int
  defines "u \<equiv> (power_int 2 (e - 52) :: rat)"
  shows "0 < u" and "power_int 2 (e + 1) = 2 ^ 53 * u" and "power_int 2 e = 2 ^ 52 * u"
proof -
  show "0 < u"
    by (simp add: u_def zero_less_power_int)
  have "power_int (2::rat) (e + 1) = power_int 2 (53 + (e - 52))"
    by (rule arg_cong [where f = "power_int 2"]) simp
  also have "\<dots> = power_int 2 53 * power_int 2 (e - 52)"
    by (rule power_int_add) simp
  finally show "power_int 2 (e + 1) = 2 ^ 53 * u"
    by (simp add: u_def)
  have "power_int (2::rat) e = power_int 2 (52 + (e - 52))"
    by (rule arg_cong [where f = "power_int 2"]) simp
  also have "\<dots> = power_int 2 52 * power_int 2 (e - 52)"
    by (rule power_int_add) simp
  finally show "power_int 2 e = 2 ^ 52 * u"
    by (simp add: u_def)
qed

lemma rounded_upper:
  assumes "0 \<le> x" and "x < power_int 2 (e + 1)"
  shows "of_int (roundHalfEven (x / power_int 2 (e - 52))) * power_int 2 (e - 52)
           \<le> (power_int 2 (e + 1) :: rat)"
proof -
  define u :: rat where "u = power_int 2 (e - 52)"
  note ulp = ulp_multiples [of e, folded u_def]
  from assms(2) ulp have "x / u \<le> of_int (2 ^ 53)"
    by (simp add: pos_divide_le_eq)
  from roundHalfEven_le [OF this] have "(of_int (roundHalfEven (x / u)) :: rat) \<le> of_int (2 ^ 53)"
    by (simp only: of_int_le_iff)
  with ulp(1) have "of_int (roundHalfEven (x / u)) * u \<le> of_int (2 ^ 53) * u"
    by (simp only: mult_le_cancel_right_pos)
  with ulp(2) show ?thesis
    by (simp add: u_def)
qed

lemma rounded_lower:
  assumes "power_int 2 e \<le> x"
  shows "(power_int 2 e :: rat)
           \<le> of_int (roundHalfEven (x / power_int 2 (e - 52))) * power_int 2 (e - 52)"
proof -
  define u :: rat where "u = power_int 2 (e - 52)"
  note ulp = ulp_multiples [of e, folded u_def]
  from assms ulp have "of_int (2 ^ 52) \<le> x / u"
    by (simp add: pos_le_divide_eq)
  from roundHalfEven_ge [OF this] have "(of_int (2 ^ 52) :: rat) \<le> of_int (roundHalfEven (x / u))"
    by (simp only: of_int_le_iff)
  with ulp(1) have "of_int (2 ^ 52) * u \<le> of_int (roundHalfEven (x / u)) * u"
    by (simp only: mult_le_cancel_right_pos)
  with ulp(3) show ?thesis
    by (simp add: u_def)
qed

lemma below_minimum_iff:
  assumes "0 \<le> x"
  shows "js_lt (toDouble x) minimumAmount \<longleftrightarrow> x < acceptanceBound"
proof (cases "x = 0")
  case True
  then show ?thesis
    by (simp add: toDouble_def minimumAmount_value acceptanceBound_def)
next
  case False
  with assms have pos: "0 < x"
    by simp
  define i where "i = ilog2 x"
  define e where "e = max i (- 1022)"
  define r :: rat where
    "r = of_int (roundHalfEven (x / power_int 2 (e - 52))) * power_int 2 (e - 52)"
  from ilog2_bounds [OF pos] have lo: "power_int 2 i \<le> x" and hi: "x < power_int 2 (i + 1)"
    by (simp_all add: i_def)
  have td: "toDouble x = (if 2 ^ 1024 \<le> r then PosInf else Fin r)"
    using False by (simp add: toDouble_def Let_def r_def e_def i_def)
  have big: "(1::rat) < 2 ^ 1024"
    by simp
  consider (small) "i \<le> - 25" | (same) "i = - 24" | (large) "- 23 \<le> i"
    by linarith
  then show ?thesis
  proof cases
    case small
    then have e: "e \<le> - 25" and ie: "i + 1 \<le> e + 1"
      by (simp_all add: e_def)
    from hi power_int_increasing [OF ie, of "2::rat"] have "x < power_int 2 (e + 1)"
      by simp
    from rounded_upper [OF assms this] have "r \<le> power_int 2 (e + 1)"
      by (simp add: r_def)
    moreover from e have "e + 1 \<le> - 24"
      by simp
    from power_int_increasing [OF this, of "2::rat"] have "power_int 2 (e + 1) \<le> (1 / 16777216 :: rat)"
      by (simp add: power_int_minus_divide)
    ultimately have r: "r \<le> 1 / 16777216"
      by simp
    from small have "i + 1 \<le> - 24"
      by simp
    from power_int_increasing [OF this, of "2::rat"] hi have x: "x < 1 / 16777216"
      by (simp add: power_int_minus_divide)
    from r big have "\<not> 2 ^ 1024 \<le> r"
      by linarith
    with r x show ?thesis
      by (simp add: td minimumAmount_value acceptanceBound_def)
  next
    case same
    then have e: "e = - 24"
      by (simp add: e_def)
    have u: "power_int 2 (e - 52) = (1 / 75557863725914323419136 :: rat)"
      by (simp add: e power_int_minus_divide)
    from hi same have "x < power_int 2 (e + 1)"
      by (simp add: e)
    from rounded_upper [OF assms this] have "r \<le> 1 / 8388608"
      by (simp add: r_def e power_int_minus_divide)
    with big have fin: "\<not> 2 ^ 1024 \<le> r"
      by linarith
    have "r < 944473296573929 / 9444732965739290427392
        \<longleftrightarrow> roundHalfEven (x * 75557863725914323419136) < 7555786372591432"
      by (simp add: r_def u field_simps)
    also have "\<dots> \<longleftrightarrow> x * 75557863725914323419136 < of_int 7555786372591432 - 1 / 2"
      by (rule roundHalfEven_less_even) simp
    also have "\<dots> \<longleftrightarrow> x < acceptanceBound"
      by (simp add: acceptanceBound_def field_simps)
    finally show ?thesis
      using fin by (simp add: td minimumAmount_value)
  next
    case large
    then have e: "e = i"
      by (simp add: e_def)
    from rounded_lower [OF lo] have "power_int 2 i \<le> r"
      by (simp add: r_def e)
    moreover from power_int_increasing [OF large, of "2::rat"]
    have p: "(1 / 8388608 :: rat) \<le> power_int 2 i"
      by (simp add: power_int_minus_divide)
    ultimately have "1 / 8388608 \<le> r"
      by simp
    moreover from p lo have "1 / 8388608 \<le> x"
      by simp
    ultimately show ?thesis
      by (simp add: td minimumAmount_value acceptanceBound_def)
  qed
qed

lemma acceptanceBound_positive: "0 < acceptanceBound"
  by (simp add: acceptanceBound_def)

lemma acceptanceBound_below_unit: "acceptanceBound < 1 / 10000000"
  by (simp add: acceptanceBound_def)

lemma unsigned_amount_rules:
  "(isNaN (toNumber (strUnsignedDecimalLiteral r))
      \<or> js_le (toNumber (strUnsignedDecimalLiteral r)) (Fin 0)
      \<or> js_lt (toNumber (strUnsignedDecimalLiteral r)) minimumAmount)
   \<longleftrightarrow> (isNaN (exact (strUnsignedDecimalLiteral r))
        \<or> js_lt (exact (strUnsignedDecimalLiteral r)) (Fin acceptanceBound))"
proof (cases "strUnsignedDecimalLiteral r")
  case NoLiteral
  then show ?thesis
    by (simp add: isNaN_def)
next
  case Infinity
  then show ?thesis
    by (simp add: isNaN_def js_le_def minimumAmount_value)
next
  case (MV x)
  with literal_nonneg have x: "0 \<le> x"
    by blast
  from toDouble_nonneg [OF x]
  have "js_le (toDouble x) (Fin 0) \<longrightarrow> js_lt (toDouble x) minimumAmount"
    by (auto simp add: js_le_def minimumAmount_value)
  moreover from toDouble_nonneg [OF x] have "\<not> isNaN (toDouble x)"
    by (auto simp add: isNaN_def)
  ultimately show ?thesis
    using below_minimum_iff [OF x] MV by (auto simp add: isNaN_def)
qed

lemma negated_amount_rules:
  "isNaN (negate (exact (strUnsignedDecimalLiteral r)))
   \<or> js_lt (negate (exact (strUnsignedDecimalLiteral r))) (Fin acceptanceBound)"
proof (cases "strUnsignedDecimalLiteral r")
  case NoLiteral
  then show ?thesis
    by (simp add: isNaN_def)
next
  case Infinity
  then show ?thesis
    by simp
next
  case (MV x)
  with literal_nonneg have "0 \<le> x"
    by blast
  with acceptanceBound_positive MV show ?thesis
    by simp
qed

lemma amount_rules_decimal:
  "(isNaN (parseFloat a) \<or> js_le (parseFloat a) (Fin 0) \<or> js_lt (parseFloat a) minimumAmount)
   \<longleftrightarrow> (isNaN (decimalValue a) \<or> js_lt (decimalValue a) (Fin acceptanceBound))"
proof (cases "trimStart a")
  case Nil
  then show ?thesis
    by (simp add: parseFloat_def decimalValue_def isNaN_def)
next
  case (Cons c r)
  show ?thesis
  proof (cases "c = CHR ''-''")
    case True
    with Cons negated_literal [of r] negated_amount_rules [of r] show ?thesis
      by (auto simp add: parseFloat_def decimalValue_def)
  next
    case False
    with Cons unsigned_amount_rules [of r] unsigned_amount_rules [of "c # r"] show ?thesis
      by (auto simp add: parseFloat_def decimalValue_def)
  qed
qed

lemma decimal_near_minimum:
  "decimalValue ''0.00000009999999999999999999''
     = Fin (9999999999999999999 / 100000000000000000000000000)"
  by code_simp

lemma trim_near_minimum:
  "trim ''0.00000009999999999999999999'' = ''0.00000009999999999999999999''"
  by code_simp

lemma validateInputs_near_minimum:
  "validateInputs testnetEnv (filledForm destKey ''0.00000009999999999999999999'') = Inr True"
  by (simp add: validateInputs_def testnetEnv_def filledForm_def trim_destKey destKey_shape
      trim_near_minimum near_minimum_rounds_to_minimum minimumAmount_value isNaN_def js_le_def)

subsection \<open>The form around the handler\<close>

lemma start_fields:
  "ui (start s p) = s" "parent (start s p) = p" "trace (start s p) = []"
  by (simp_all add: start_def)

lemma whiteSpace_not_number_start:
  assumes "isWhiteSpace c"
  shows "\<not> isDecimalDigit c" and "c \<noteq> CHR ''.''" and "c \<noteq> CHR ''-''"
  using assms by (auto simp add: isWhiteSpace_def isDecimalDigit_def)

lemma validFloatingPointNumber_head:
  assumes "validFloatingPointNumber a"
  shows "a \<noteq> [] \<and> \<not> isWhiteSpace (hd a)"
proof (cases a)
  case Nil
  with assms show ?thesis
    by (simp add: validFloatingPointNumber_def)
next
  case (Cons c r)
  have "\<not> isWhiteSpace c"
  proof
    assume ws: "isWhiteSpace c"
    note no = whiteSpace_not_number_start [OF ws]
    from no Cons have "validFloatingPointNumber a = False"
      by (simp add: validFloatingPointNumber_def)
    with assms show False
      by simp
  qed
  with Cons show ?thesis
    by simp
qed

lemma amountHeld_not_blank:
  assumes "amountHeld a" and "a \<noteq> []"
  shows "trim a \<noteq> []"
proof -
  from assms have "validFloatingPointNumber a"
    by (simp add: amountHeld_def)
  from validFloatingPointNumber_head [OF this] have "trimStart a = a" "a \<noteq> []"
    by (cases a; simp add: trimStart_def)+
  then show ?thesis
    by (simp add: trim_eq_Nil)
qed

lemma amountHeld_numberInputValue: "amountHeld (numberInputValue typed)"
  by (simp add: amountHeld_def numberInputValue_def)

lemma amountHeld_onChangeAmount:
  "amountHeld (amount (ui w)) \<Longrightarrow> amountHeld (amount (ui (onChangeAmount typed w)))"
  by (simp add: onChangeAmount_def setAmount_def amountHeld_numberInputValue)

lemma amountHeld_handleSendPayment:
  assumes "amountHeld (amount (ui w))"
  shows "amountHeld (amount (ui (handleSendPayment env w)))"
  using assms
  by (cases rule: run_outcome [of env w])
    (simp_all add: state_defs notifyParent_ui amountHeld_def)

lemma amountHeld_onSubmit:
  "amountHeld (amount (ui w)) \<Longrightarrow> amountHeld (amount (ui (onSubmit env w)))"
  by (simp add: onSubmit_def amountHeld_handleSendPayment)

lemma amountInputValid_10: "amountInputValid ''10''"
  by code_simp

lemma amountInputValid_minus_5: "\<not> amountInputValid ''-5''"
  by code_simp

lemma amountHeld_10: "amountHeld ''10''"
  by code_simp

lemma browser_blocks_negative_amount:
  "onSubmit testnetEnv (start (filledForm '' '' ''-5'') 0) = start (filledForm '' '' ''-5'') 0"
  by (simp add: onSubmit_def start_def filledForm_def amountInputValid_minus_5)


section \<open>The claims\<close>

text \<open>
  C1 (amended). When validation and the building of the envelope succeed and the signer
  returns no signature, the run ends with the error
  \<^verbatim>\<open>Transaction signing was cancelled\<close> set and shown in the error banner: the source
  throws on a missing signature and has no aborted-by-user state. Nothing is submitted, no
  success is shown, the parent is not notified, the fields keep their values, and the
  form is back at the step \<^verbatim>\<open>input\<close>.
\<close>

theorem cancelled_signature_is_reported:
  assumes "validateInputs env s = Inr ok"
    and "buildPaymentTransaction env (publicKey env) (trim (destination s)) (trim (amount s))
           = Resolves xdr"
    and "signTransaction env xdr (signOptions env) = Resolves signedXDR"
    and "noSignature signedXDR"
  shows "error (ui (handleSendPayment env (start s p))) = Some ''Transaction signing was cancelled''
       \<and> errorBanner (ui (handleSendPayment env (start s p)))
       \<and> success (ui (handleSendPayment env (start s p))) = None
       \<and> destination (ui (handleSendPayment env (start s p))) = destination s
       \<and> amount (ui (handleSendPayment env (start s p))) = amount s
       \<and> \<not> isLoading (ui (handleSendPayment env (start s p)))
       \<and> step (ui (handleSendPayment env (start s p))) = ''input''
       \<and> calls (trace (handleSendPayment env (start s p)))
           = [Build (publicKey env) (trim (destination s)) (trim (amount s)),
              Sign xdr (signOptions env)]
       \<and> notifications (trace (handleSendPayment env (start s p))) = 0
       \<and> parent (handleSendPayment env (start s p)) = p"
proof -
  have "validateInputs env (ui (start s p)) = Inr ok"
    and "buildPaymentTransaction env (publicKey env) (trim (destination (ui (start s p))))
           (trim (amount (ui (start s p)))) = Resolves xdr"
    using assms(1,2) by (simp_all add: start_def)
  from run_cancelled [OF this assms(3,4)] show ?thesis
    by (simp add: start_def state_defs errorBanner_def notifications_def)
qed

theorem cancelled_signature_is_reported_witness:
  "validateInputs cancellingEnv (filledForm destKey ''10'') = Inr True
   \<and> noSignature None
   \<and> error (ui (handleSendPayment cancellingEnv (start (filledForm destKey ''10'') 0)))
       = Some ''Transaction signing was cancelled''
   \<and> destination (ui (handleSendPayment cancellingEnv (start (filledForm destKey ''10'') 0)))
       = destKey
   \<and> notifications (trace (handleSendPayment cancellingEnv (start (filledForm destKey ''10'') 0)))
       = 0"
proof -
  have n: "noSignature None"
    by (simp add: noSignature_def)
  from cancelled_signature_is_reported
    [OF validateInputs_cancellingEnv cancelling_build cancelling_sign n, of 0]
  show ?thesis
    using validateInputs_cancellingEnv n by (simp add: filledForm_def)
qed

theorem cancelled_signature_counterexample:
  "validateInputs cancellingEnv (filledForm destKey ''10'') = Inr True
   \<and> buildPaymentTransaction cancellingEnv (publicKey cancellingEnv)
        (trim (destination (filledForm destKey ''10''))) (trim (amount (filledForm destKey ''10'')))
       = Resolves ''unsigned-envelope''
   \<and> signTransaction cancellingEnv ''unsigned-envelope'' (signOptions cancellingEnv) = Resolves None
   \<and> errorBanner (ui (handleSendPayment cancellingEnv (start (filledForm destKey ''10'') 0)))
   \<and> error (ui (handleSendPayment cancellingEnv (start (filledForm destKey ''10'') 0))) \<noteq> None"
  using validateInputs_cancellingEnv cancelling_build cancelling_sign
  by (simp add: cancelled_run failedState_def errorBanner_def)

text \<open>
  C2 (amended). The source has three step values and sets \<^verbatim>\<open>signing\<close> before it builds
  the envelope, so there is no state of its own for building, nor one for validating,
  which is synchronous. A run whose input fails validation awaits no call. A run whose
  input passes awaits the build under the step \<^verbatim>\<open>signing\<close>; once the envelope is built
  it awaits the signer, still under \<^verbatim>\<open>signing\<close>; once a signature is obtained it awaits
  the submission under \<^verbatim>\<open>submitting\<close>; and it awaits nothing after a call that fails
  or after a missing signature. Every run ends at the step \<^verbatim>\<open>input\<close> with loading
  off, whatever its outcome.
\<close>

theorem step_sequence:
  "step (ui (handleSendPayment env (start s p))) = ''input''
   \<and> \<not> isLoading (ui (handleSendPayment env (start s p)))
   \<and> prefix (map callName (calls (trace (handleSendPayment env (start s p)))))
        [''buildPaymentTransaction'', ''signTransaction'', ''submitTransaction'']
   \<and> prefix (map step (pending (trace (handleSendPayment env (start s p)))))
        [''signing'', ''signing'', ''submitting'']
   \<and> length (pending (trace (handleSendPayment env (start s p))))
       = length (calls (trace (handleSendPayment env (start s p))))
   \<and> (validateInputs env s = Inl invalid \<longrightarrow>
        calls (trace (handleSendPayment env (start s p))) = [])
   \<and> (validateInputs env s = Inr ok
        \<and> buildPaymentTransaction env (publicKey env) (trim (destination s)) (trim (amount s))
            = Rejects failure \<longrightarrow>
        calls (trace (handleSendPayment env (start s p)))
          = [Build (publicKey env) (trim (destination s)) (trim (amount s))]
        \<and> pending (trace (handleSendPayment env (start s p))) = [pendingState ''signing'' s])
   \<and> (validateInputs env s = Inr ok
        \<and> buildPaymentTransaction env (publicKey env) (trim (destination s)) (trim (amount s))
            = Resolves xdr
        \<and> (signTransaction env xdr (signOptions env) = Rejects failure
            \<or> signTransaction env xdr (signOptions env) = Resolves signedXDR
               \<and> noSignature signedXDR) \<longrightarrow>
        calls (trace (handleSendPayment env (start s p)))
          = [Build (publicKey env) (trim (destination s)) (trim (amount s)),
             Sign xdr (signOptions env)]
        \<and> pending (trace (handleSendPayment env (start s p)))
          = [pendingState ''signing'' s, pendingState ''signing'' s])
   \<and> (validateInputs env s = Inr ok
        \<and> buildPaymentTransaction env (publicKey env) (trim (destination s)) (trim (amount s))
            = Resolves xdr
        \<and> signTransaction env xdr (signOptions env) = Resolves signedXDR
        \<and> \<not> noSignature signedXDR \<longrightarrow>
        calls (trace (handleSendPayment env (start s p)))
          = [Build (publicKey env) (trim (destination s)) (trim (amount s)),
             Sign xdr (signOptions env),
             Submit (the signedXDR)]
        \<and> pending (trace (handleSendPayment env (start s p)))
          = [pendingState ''signing'' s, pendingState ''signing'' s,
             pendingState ''submitting'' s])"
proof -
  let ?w = "handleSendPayment env (start s p)"
  have ends: "step (ui ?w) = ''input'' \<and> \<not> isLoading (ui ?w)
     \<and> prefix (map callName (calls (trace ?w)))
          [''buildPaymentTransaction'', ''signTransaction'', ''submitTransaction'']
     \<and> prefix (map step (pending (trace ?w))) [''signing'', ''signing'', ''submitting'']
     \<and> length (pending (trace ?w)) = length (calls (trace ?w))"
    by (cases rule: run_outcome [of env "start s p"])
      (simp_all add: start_def state_defs pending_notifyParent calls_notifyParent
        notifyParent_ui)
  have invalid: "calls (trace ?w) = []" if "validateInputs env s = Inl invalid"
    using run_invalid [of env "start s p" invalid] that by (simp add: start_fields)
  have build: "calls (trace ?w)
          = [Build (publicKey env) (trim (destination s)) (trim (amount s))]
        \<and> pending (trace ?w) = [pendingState ''signing'' s]"
    if "validateInputs env s = Inr ok"
      "buildPaymentTransaction env (publicKey env) (trim (destination s)) (trim (amount s))
            = Rejects failure"
    using run_build_rejected [of env "start s p" ok failure] that by (simp add: start_fields)
  have sign: "calls (trace ?w)
          = [Build (publicKey env) (trim (destination s)) (trim (amount s)),
             Sign xdr (signOptions env)]
        \<and> pending (trace ?w) = [pendingState ''signing'' s, pendingState ''signing'' s]"
    if "validateInputs env s = Inr ok"
      "buildPaymentTransaction env (publicKey env) (trim (destination s)) (trim (amount s))
            = Resolves xdr"
      "signTransaction env xdr (signOptions env) = Rejects failure
            \<or> signTransaction env xdr (signOptions env) = Resolves signedXDR
               \<and> noSignature signedXDR"
    using that(3)
  proof
    assume "signTransaction env xdr (signOptions env) = Rejects failure"
    with run_sign_rejected [of env "start s p" ok xdr failure] that(1,2) show ?thesis
      by (simp add: start_fields)
  next
    assume "signTransaction env xdr (signOptions env) = Resolves signedXDR
               \<and> noSignature signedXDR"
    with run_cancelled [of env "start s p" ok xdr signedXDR] that(1,2) show ?thesis
      by (simp add: start_fields)
  qed
  have submit: "calls (trace ?w)
          = [Build (publicKey env) (trim (destination s)) (trim (amount s)),
             Sign xdr (signOptions env),
             Submit (the signedXDR)]
        \<and> pending (trace ?w)
          = [pendingState ''signing'' s, pendingState ''signing'' s,
             pendingState ''submitting'' s]"
    if "validateInputs env s = Inr ok"
      "buildPaymentTransaction env (publicKey env) (trim (destination s)) (trim (amount s))
            = Resolves xdr"
      "signTransaction env xdr (signOptions env) = Resolves signedXDR"
      "\<not> noSignature signedXDR"
  proof (cases "submitTransaction env (the signedXDR)")
    case (Rejects e)
    with run_submit_rejected [of env "start s p" ok xdr signedXDR e] that show ?thesis
      by (simp add: start_fields)
  next
    case (Resolves result)
    with run_submitted [of env "start s p" ok xdr signedXDR result] that show ?thesis
      by (simp add: start_fields calls_notifyParent pending_notifyParent)
  qed
  from ends invalid build sign submit show ?thesis
    by blast
qed

theorem step_sequence_witness:
  "validateInputs testnetEnv (filledForm destKey ''10'') = Inr True
   \<and> calls (trace (handleSendPayment testnetEnv (start (filledForm destKey ''10'') 0)))
       = [Build sourceKey destKey ''10'',
          Sign ''unsigned-envelope'' (signOptions testnetEnv),
          Submit ''signed-envelope'']
   \<and> map step (pending (trace (handleSendPayment testnetEnv (start (filledForm destKey ''10'') 0))))
       = [''signing'', ''signing'', ''submitting'']
   \<and> step (ui (handleSendPayment testnetEnv (start (filledForm destKey ''10'') 0))) = ''input''
   \<and> validateInputs testnetEnv (filledForm [] ''10'')
       = Inl (Thrown (Some ''Destination address is required''))
   \<and> calls (trace (handleSendPayment testnetEnv (start (filledForm [] ''10'') 0))) = []"
proof -
  have n: "\<not> noSignature (Some ''signed-envelope'')"
    by (simp add: noSignature_def)
  have i: "validateInputs testnetEnv (filledForm [] ''10'')
       = Inl (Thrown (Some ''Destination address is required''))"
    by (simp add: validateInputs_def filledForm_def trim_Nil)
  have pk: "publicKey testnetEnv = sourceKey"
    by (simp add: testnetEnv_def)
  from step_sequence [of testnetEnv "filledForm destKey ''10''" 0 _ True _ "''unsigned-envelope''"
      "Some ''signed-envelope''"]
    step_sequence [of testnetEnv "filledForm [] ''10''" 0
      "Thrown (Some ''Destination address is required'')"]
    validateInputs_testnetEnv testnet_build testnet_sign n i
  show ?thesis
    by (simp add: pendingState_def filledForm_def pk trim_destKey trim_10)
qed

theorem building_state_counterexample:
  "map callName (calls (trace (handleSendPayment testnetEnv (start (filledForm destKey ''10'') 0))))
     = [''buildPaymentTransaction'', ''signTransaction'', ''submitTransaction'']
   \<and> map step (pending (trace (handleSendPayment testnetEnv (start (filledForm destKey ''10'') 0))))
     = [''signing'', ''signing'', ''submitting'']
   \<and> pending (trace (handleSendPayment testnetEnv (start (filledForm destKey ''10'') 0))) ! 0
     = pending (trace (handleSendPayment testnetEnv (start (filledForm destKey ''10'') 0))) ! 1
   \<and> \<not> distinct (map step (pending (trace (handleSendPayment testnetEnv
          (start (filledForm destKey ''10'') 0)))))
   \<and> map getStepLabel
         (pending (trace (handleSendPayment testnetEnv (start (filledForm destKey ''10'') 0))))
     = [''Waiting for signature...'', ''Waiting for signature...'',
        ''Submitting transaction...'']"
  by (simp add: testnet_run pendingState_def getStepLabel_def)

text \<open>
  C3. When the submission resolves to a result that carries a transaction hash, the run
  ends with the success shown for that hash and no error, both fields are cleared, and
  \<open>onTransactionComplete\<close>, which \<^verbatim>\<open>Index.tsx\<close> always passes, is called exactly once.
\<close>

theorem submitted_payment_succeeds:
  assumes "validateInputs env s = Inr ok"
    and "buildPaymentTransaction env (publicKey env) (trim (destination s)) (trim (amount s))
           = Resolves xdr"
    and "signTransaction env xdr (signOptions env) = Resolves signedXDR"
    and "\<not> noSignature signedXDR"
    and "submitTransaction env (the signedXDR) = Resolves result"
    and "hash result = Some h"
    and "onTransactionComplete env = Some cb"
  shows "success (ui (handleSendPayment env (start s p)))
           = Some \<lparr>success_hash = Some h, explorerUrl = getExplorerUrl env (Some h)\<rparr>
       \<and> error (ui (handleSendPayment env (start s p))) = None
       \<and> \<not> errorBanner (ui (handleSendPayment env (start s p)))
       \<and> destination (ui (handleSendPayment env (start s p))) = []
       \<and> amount (ui (handleSendPayment env (start s p))) = []
       \<and> notifications (trace (handleSendPayment env (start s p))) = 1
       \<and> parent (handleSendPayment env (start s p)) = cb p"
proof -
  have "validateInputs env (ui (start s p)) = Inr ok"
    and "buildPaymentTransaction env (publicKey env) (trim (destination (ui (start s p))))
           (trim (amount (ui (start s p)))) = Resolves xdr"
    using assms(1,2) by (simp_all add: start_def)
  from run_submitted [OF this assms(3,4,5)] show ?thesis
    using assms(6,7)
    by (simp add: start_def state_defs notifications_def notifyParent_def errorBanner_def)
qed

theorem submitted_payment_succeeds_witness:
  "validateInputs testnetEnv (filledForm destKey ''10'') = Inr True
   \<and> hash \<lparr>hash = Some ''abc123''\<rparr> = Some ''abc123''
   \<and> onTransactionComplete testnetEnv = Some handleTransactionComplete
   \<and> success (ui (handleSendPayment testnetEnv (start (filledForm destKey ''10'') 0)))
       = Some \<lparr>success_hash = Some ''abc123'',
               explorerUrl = ''https://stellar.expert/explorer/testnet/tx/abc123''\<rparr>
   \<and> destination (ui (handleSendPayment testnetEnv (start (filledForm destKey ''10'') 0))) = []
   \<and> amount (ui (handleSendPayment testnetEnv (start (filledForm destKey ''10'') 0))) = []
   \<and> notifications (trace (handleSendPayment testnetEnv (start (filledForm destKey ''10'') 0))) = 1
   \<and> parent (handleSendPayment testnetEnv (start (filledForm destKey ''10'') 0)) = 1"
proof -
  have n: "\<not> noSignature (Some ''signed-envelope'')"
    by (simp add: noSignature_def)
  have h: "hash \<lparr>hash = Some ''abc123''\<rparr> = Some ''abc123''"
    by simp
  have cb: "onTransactionComplete testnetEnv = Some handleTransactionComplete"
    by (simp add: testnetEnv_def)
  have url: "getExplorerUrl testnetEnv (Some ''abc123'')
      = ''https://stellar.expert/explorer/testnet/tx/abc123''"
    by (simp add: testnetEnv_def)
  from submitted_payment_succeeds
    [OF validateInputs_testnetEnv testnet_build testnet_sign n testnet_submit h cb, of 0]
  show ?thesis
    using validateInputs_testnetEnv cb by (simp add: url handleTransactionComplete_def)
qed

text \<open>
  C4. A run that ends with an error set (after a validation error, a failed build, a
  rejected or missing signature, or a failed submission) leaves the destination and the
  amount as the user entered them.
\<close>

theorem failed_run_keeps_fields:
  assumes "error (ui (handleSendPayment env w)) \<noteq> None"
  shows "destination (ui (handleSendPayment env w)) = destination (ui w)
       \<and> amount (ui (handleSendPayment env w)) = amount (ui w)"
  using assms
  by (cases rule: run_outcome [of env w]) (simp_all add: state_defs notifyParent_ui)

theorem failed_run_keeps_fields_witness:
  "error (ui (handleSendPayment cancellingEnv (start (filledForm destKey ''10'') 0))) \<noteq> None
   \<and> destination (ui (handleSendPayment cancellingEnv (start (filledForm destKey ''10'') 0)))
       = destKey
   \<and> amount (ui (handleSendPayment cancellingEnv (start (filledForm destKey ''10'') 0))) = ''10''"
proof -
  have e: "error (ui (handleSendPayment cancellingEnv (start (filledForm destKey ''10'') 0)))
      \<noteq> None"
    by (simp add: cancelled_run failedState_def)
  from failed_run_keeps_fields [OF e] e show ?thesis
    by (simp add: start_def filledForm_def)
qed

text \<open>
  C5 (amended). The rules on the amount are tests of the Number that \<^verbatim>\<open>parseFloat\<close>
  reads from it: the amount violates one of them exactly when its text is no number or
  its decimal value is below \<open>15111572745182863 / 2 ^ 77\<close>, half a unit in the last place
  under the Number 0.0000001; a text from there up to \<open>1 / 10 ^ 7\<close> is read as 0.0000001
  and is accepted. When the input violates a rule (the trimmed destination is empty, is
  not a valid address or is the sender's own; the amount is blank or violates a rule in
  this sense), the run ends with the message of a rule that the input does violate, shown
  in the error banner; different rules have different messages; and the run makes no call
  at all to build, sign or submit.
\<close>

theorem violated_rule_fails_at_validation:
  "(violates NonPositiveAmount env s \<or> violates BelowMinimum env s
      \<longleftrightarrow> isNaN (decimalValue (amount s))
          \<or> js_lt (decimalValue (amount s)) (Fin acceptanceBound))
   \<and> acceptanceBound < 1 / 10000000
   \<and> ((\<exists>r. violates r env s) \<longrightarrow>
        (\<exists>r. violates r env s
           \<and> (\<forall>r'. ruleMessage r' = ruleMessage r \<longrightarrow> r' = r)
           \<and> error (ui (handleSendPayment env (start s p))) = Some (ruleMessage r)
           \<and> errorBanner (ui (handleSendPayment env (start s p)))
           \<and> calls (trace (handleSendPayment env (start s p))) = []
           \<and> trace (handleSendPayment env (start s p))
               = [ConsoleError (Thrown (Some (ruleMessage r)))]
           \<and> destination (ui (handleSendPayment env (start s p))) = destination s
           \<and> amount (ui (handleSendPayment env (start s p))) = amount s
           \<and> step (ui (handleSendPayment env (start s p))) = ''input''
           \<and> \<not> isLoading (ui (handleSendPayment env (start s p)))))"
proof -
  have decimal: "violates NonPositiveAmount env s \<or> violates BelowMinimum env s
      \<longleftrightarrow> isNaN (decimalValue (amount s))
          \<or> js_lt (decimalValue (amount s)) (Fin acceptanceBound)"
    using amount_rules_decimal [of "amount s"] by auto
  have run: "\<exists>r. violates r env s
           \<and> (\<forall>r'. ruleMessage r' = ruleMessage r \<longrightarrow> r' = r)
           \<and> error (ui (handleSendPayment env (start s p))) = Some (ruleMessage r)
           \<and> errorBanner (ui (handleSendPayment env (start s p)))
           \<and> calls (trace (handleSendPayment env (start s p))) = []
           \<and> trace (handleSendPayment env (start s p))
               = [ConsoleError (Thrown (Some (ruleMessage r)))]
           \<and> destination (ui (handleSendPayment env (start s p))) = destination s
           \<and> amount (ui (handleSendPayment env (start s p))) = amount s
           \<and> step (ui (handleSendPayment env (start s p))) = ''input''
           \<and> \<not> isLoading (ui (handleSendPayment env (start s p)))"
    if "\<exists>r. violates r env s"
  proof -
    from that obtain r0 where "violates r0 env s" ..
    from validateInputs_rule [OF this] obtain r where r: "violates r env s"
      and v: "validateInputs env s = Inl (Thrown (Some (ruleMessage r)))"
      by blast
    have "error (ui (handleSendPayment env (start s p))) = Some (ruleMessage r)
         \<and> errorBanner (ui (handleSendPayment env (start s p)))
         \<and> calls (trace (handleSendPayment env (start s p))) = []
         \<and> trace (handleSendPayment env (start s p))
             = [ConsoleError (Thrown (Some (ruleMessage r)))]
         \<and> destination (ui (handleSendPayment env (start s p))) = destination s
         \<and> amount (ui (handleSendPayment env (start s p))) = amount s
         \<and> step (ui (handleSendPayment env (start s p))) = ''input''
         \<and> \<not> isLoading (ui (handleSendPayment env (start s p)))"
      using ruleMessage_nonempty [of r]
      by (simp add: run_rule [OF v] failedState_def errorBanner_def)
    with r ruleMessage_inject show ?thesis
      by blast
  qed
  from decimal acceptanceBound_below_unit run show ?thesis
    by blast
qed

theorem violated_rule_fails_at_validation_witness:
  "violates SelfSend testnetEnv (filledForm sourceKey ''10'')
   \<and> error (ui (handleSendPayment testnetEnv (start (filledForm sourceKey ''10'') 0)))
       = Some ''Cannot send to your own address''
   \<and> calls (trace (handleSendPayment testnetEnv (start (filledForm sourceKey ''10'') 0))) = []
   \<and> js_lt (decimalValue (amount (filledForm destKey ''0.00000005''))) (Fin acceptanceBound)
   \<and> violates BelowMinimum testnetEnv (filledForm destKey ''0.00000005'')"
proof -
  let ?s = "filledForm sourceKey ''10''"
  let ?h = "filledForm destKey ''0.00000005''"
  have self: "violates SelfSend testnetEnv ?s"
    by (simp add: testnetEnv_def filledForm_def trim_sourceKey)
  then have "\<exists>r. violates r testnetEnv ?s" ..
  with violated_rule_fails_at_validation [of testnetEnv ?s 0]
  obtain r where r: "violates r testnetEnv ?s"
    and e: "error (ui (handleSendPayment testnetEnv (start ?s 0))) = Some (ruleMessage r)"
    and c: "calls (trace (handleSendPayment testnetEnv (start ?s 0))) = []"
    by blast
  have "r = SelfSend"
    using r
    by (cases r)
      (simp_all add: testnetEnv_def filledForm_def trim_sourceKey sourceKey_shape trim_10
        parseFloat_10 minimumAmount_value isNaN_def js_le_def)
  with e have e': "error (ui (handleSendPayment testnetEnv (start ?s 0)))
      = Some ''Cannot send to your own address''"
    by simp
  have "decimalValue ''0.00000005'' = Fin (1 / 20000000)"
    by code_simp
  then have d: "js_lt (decimalValue (amount ?h)) (Fin acceptanceBound)"
    by (simp add: filledForm_def acceptanceBound_def)
  have positive: "\<not> violates NonPositiveAmount testnetEnv ?h"
    by (simp add: filledForm_def parseFloat_half_unit isNaN_def js_le_def)
  from violated_rule_fails_at_validation [of testnetEnv ?h 0] d positive
  have "violates BelowMinimum testnetEnv ?h"
    by blast
  with self e' c d show ?thesis
    by simp
qed

theorem sub_minimum_amount_counterexample:
  "decimalValue ''0.00000009999999999999999999''
     = Fin (9999999999999999999 / 100000000000000000000000000)
   \<and> (9999999999999999999 / 100000000000000000000000000 :: rat) < 1 / 10000000
   \<and> validateInputs testnetEnv (filledForm destKey ''0.00000009999999999999999999'') = Inr True
   \<and> calls (trace (handleSendPayment testnetEnv
        (start (filledForm destKey ''0.00000009999999999999999999'') 0)))
       = [Build sourceKey destKey ''0.00000009999999999999999999'',
          Sign ''unsigned-envelope'' (signOptions testnetEnv),
          Submit ''signed-envelope'']
   \<and> error (ui (handleSendPayment testnetEnv
        (start (filledForm destKey ''0.00000009999999999999999999'') 0))) = None"
  by (simp add: decimal_near_minimum validateInputs_near_minimum
      testnet_run_amount [OF validateInputs_near_minimum] trim_near_minimum successState_def)

text \<open>
  C6. An amount of \<^verbatim>\<open>0\<close>, an amount whose first character after white space is a
  minus sign, and the amount \<^verbatim>\<open>0.00000005\<close> all make the run fail at Validating,
  whatever the destination is. When the destination passes its own rules, the message is
  the one for an amount that is not positive in the first two cases and the one for an
  amount below the minimum in the third.
\<close>

theorem zero_negative_and_half_unit_amounts_fail:
  assumes "amount s = ''0'' \<or> (\<exists>r. trimStart (amount s) = CHR ''-'' # r)
           \<or> amount s = ''0.00000005''"
  shows "failedAtValidating env s p
       \<and> (\<exists>m. validateInputs env s = Inl (Thrown (Some m)))
       \<and> (\<not> violates EmptyAddress env s \<and> \<not> violates InvalidAddress env s
            \<and> \<not> violates SelfSend env s \<and> amount s \<noteq> ''0.00000005''
           \<longrightarrow> error (ui (handleSendPayment env (start s p)))
                = Some ''Amount must be a positive number'')
       \<and> (\<not> violates EmptyAddress env s \<and> \<not> violates InvalidAddress env s
            \<and> \<not> violates SelfSend env s \<and> amount s = ''0.00000005''
           \<longrightarrow> error (ui (handleSendPayment env (start s p)))
                = Some ''Amount is below minimum (0.0000001 XLM)'')"
proof -
  have starts: "trimStart ''0'' = ''0''" "trimStart ''0.00000005'' = ''0.00000005''"
    by code_simp+
  from assms consider (zero) "amount s = ''0''"
    | (minus) r where "trimStart (amount s) = CHR ''-'' # r"
    | (half) "amount s = ''0.00000005''"
    by blast
  then have nonblank: "\<not> violates MissingAmount env s"
    by cases (simp_all add: trim_eq_Nil starts)
  have amount_rule:
    "(amount s \<noteq> ''0.00000005'' \<longrightarrow> violates NonPositiveAmount env s)
     \<and> (amount s = ''0.00000005'' \<longrightarrow>
          \<not> violates NonPositiveAmount env s \<and> violates BelowMinimum env s)"
  proof (cases "amount s = ''0.00000005''")
    case True
    then show ?thesis
      by (simp add: parseFloat_half_unit minimumAmount_value js_le_def isNaN_def)
  next
    case False
    with assms consider (zero) "amount s = ''0''"
      | (minus) r where "trimStart (amount s) = CHR ''-'' # r"
      by blast
    then have "violates NonPositiveAmount env s"
    proof cases
      case zero
      then show ?thesis
        by (simp add: parseFloat_0 js_le_def)
    next
      case minus
      from parseFloat_leading_minus [OF this] show ?thesis
        by simp
    qed
    with False show ?thesis
      by simp
  qed
  then have "violates NonPositiveAmount env s \<or> violates BelowMinimum env s"
    by blast
  then obtain r0 where "violates r0 env s"
    by blast
  from rule_failure [OF this, of p] obtain r where
    v: "validateInputs env s = Inl (Thrown (Some (ruleMessage r)))"
    and run: "handleSendPayment env (start s p) =
           \<lparr>ui = failedState (ruleMessage r) s, parent = p,
            trace = [ConsoleError (Thrown (Some (ruleMessage r)))]\<rparr>"
    by blast
  have failed: "failedAtValidating env s p"
    by (simp add: failedAtValidating_def run failedState_def)
  have positive: "error (ui (handleSendPayment env (start s p)))
      = Some ''Amount must be a positive number''"
    if "\<not> violates EmptyAddress env s" "\<not> violates InvalidAddress env s"
      "\<not> violates SelfSend env s" "amount s \<noteq> ''0.00000005''"
  proof -
    have "validateInputs env s = Inl (Thrown (Some (ruleMessage NonPositiveAmount)))"
      using that nonblank amount_rule by (simp add: validateInputs_def)
    from run_rule [OF this, of p] show ?thesis
      by (simp add: failedState_def)
  qed
  have below: "error (ui (handleSendPayment env (start s p)))
      = Some ''Amount is below minimum (0.0000001 XLM)''"
    if "\<not> violates EmptyAddress env s" "\<not> violates InvalidAddress env s"
      "\<not> violates SelfSend env s" "amount s = ''0.00000005''"
  proof -
    have "validateInputs env s = Inl (Thrown (Some (ruleMessage BelowMinimum)))"
      using that nonblank amount_rule by (simp add: validateInputs_def)
    from run_rule [OF this, of p] show ?thesis
      by (simp add: failedState_def)
  qed
  from failed v positive below show ?thesis
    by blast
qed

theorem zero_negative_and_half_unit_amounts_fail_witness:
  "trimStart (amount (filledForm destKey ''-5'')) = CHR ''-'' # ''5''
   \<and> failedAtValidating testnetEnv (filledForm destKey ''-5'') 0
   \<and> failedAtValidating testnetEnv (filledForm destKey ''0'') 0
   \<and> failedAtValidating testnetEnv (filledForm destKey ''0.00000005'') 0
   \<and> error (ui (handleSendPayment testnetEnv (start (filledForm destKey ''0.00000005'') 0)))
       = Some ''Amount is below minimum (0.0000001 XLM)''
   \<and> error (ui (handleSendPayment testnetEnv (start (filledForm destKey ''0'') 0)))
       = Some ''Amount must be a positive number''"
proof -
  have m: "trimStart (amount (filledForm destKey ''-5'')) = CHR ''-'' # ''5''"
    unfolding filledForm_def by code_simp
  then have a: "amount (filledForm destKey ''-5'') = ''0''
      \<or> (\<exists>r. trimStart (amount (filledForm destKey ''-5'')) = CHR ''-'' # r)
      \<or> amount (filledForm destKey ''-5'') = ''0.00000005''"
    by blast
  have b: "amount (filledForm destKey ''0'') = ''0''
      \<or> (\<exists>r. trimStart (amount (filledForm destKey ''0'')) = CHR ''-'' # r)
      \<or> amount (filledForm destKey ''0'') = ''0.00000005''"
    by (simp add: filledForm_def)
  have c: "amount (filledForm destKey ''0.00000005'') = ''0''
      \<or> (\<exists>r. trimStart (amount (filledForm destKey ''0.00000005'')) = CHR ''-'' # r)
      \<or> amount (filledForm destKey ''0.00000005'') = ''0.00000005''"
    by (simp add: filledForm_def)
  have d: "\<not> violates EmptyAddress testnetEnv (filledForm destKey x)
      \<and> \<not> violates InvalidAddress testnetEnv (filledForm destKey x)
      \<and> \<not> violates SelfSend testnetEnv (filledForm destKey x)" for x
    by (simp add: testnetEnv_def filledForm_def trim_destKey destKey_shape)
  from zero_negative_and_half_unit_amounts_fail [OF a, of testnetEnv 0]
    zero_negative_and_half_unit_amounts_fail [OF b, of testnetEnv 0]
    zero_negative_and_half_unit_amounts_fail [OF c, of testnetEnv 0]
    d [of "''0''"] d [of "''0.00000005''"] m
  show ?thesis
    by (simp add: filledForm_def)
qed

text \<open>
  C7 (amended). An amount that validation accepts is not blank and parses to a Number
  above zero and not below 0.0000001 (Infinity included); and every input that violates
  none of the rules is accepted. The number of fractional digits is not looked at during
  Validating: \<^verbatim>\<open>1.12345678\<close>, which needs eight, is accepted and handed to
  \<^verbatim>\<open>buildPaymentTransaction\<close>.
\<close>

theorem accepted_amount_is_positive_and_not_below_minimum:
  "(validateInputs env s = Inr True \<longleftrightarrow> \<not> (\<exists>r. violates r env s))
   \<and> (validateInputs env s = Inr True \<longrightarrow>
        trim (amount s) \<noteq> []
        \<and> (parseFloat (amount s) = PosInf
            \<or> (\<exists>x. parseFloat (amount s) = Fin x \<and> 0 < x
                  \<and> 944473296573929 / 9444732965739290427392 \<le> x)))"
proof -
  have iff: "validateInputs env s = Inr True \<longleftrightarrow> \<not> (\<exists>r. violates r env s)"
  proof
    assume ok: "validateInputs env s = Inr True"
    show "\<not> (\<exists>r. violates r env s)"
    proof
      assume "\<exists>r. violates r env s"
      then obtain r0 where "violates r0 env s" ..
      from validateInputs_rule [OF this] ok show False
        by auto
    qed
  next
    assume "\<not> (\<exists>r. violates r env s)"
    then show "validateInputs env s = Inr True"
      by (rule no_violation_accepted)
  qed
  have "trim (amount s) \<noteq> []
        \<and> (parseFloat (amount s) = PosInf
            \<or> (\<exists>x. parseFloat (amount s) = Fin x \<and> 0 < x
                  \<and> 944473296573929 / 9444732965739290427392 \<le> x))"
    if "validateInputs env s = Inr True"
  proof -
    from that iff have "\<not> violates MissingAmount env s"
      "\<not> violates NonPositiveAmount env s" "\<not> violates BelowMinimum env s"
      by blast+
    then show ?thesis
      by (cases "parseFloat (amount s)")
        (simp_all add: isNaN_def js_le_def minimumAmount_value)
  qed
  with iff show ?thesis
    by blast
qed

theorem accepted_amount_is_positive_and_not_below_minimum_witness:
  "validateInputs testnetEnv (filledForm destKey ''10'') = Inr True
   \<and> \<not> (\<exists>r. violates r testnetEnv (filledForm destKey ''10''))
   \<and> trim (amount (filledForm destKey ''10'')) \<noteq> []
   \<and> (parseFloat (amount (filledForm destKey ''10'')) = PosInf
       \<or> (\<exists>x. parseFloat (amount (filledForm destKey ''10'')) = Fin x \<and> 0 < x
             \<and> 944473296573929 / 9444732965739290427392 \<le> x))"
  using accepted_amount_is_positive_and_not_below_minimum
    [of testnetEnv "filledForm destKey ''10''"] validateInputs_testnetEnv
  by blast

theorem eight_fractional_digits_counterexample:
  "validateInputs testnetEnv (filledForm destKey ''1.12345678'') = Inr True
   \<and> strUnsignedDecimalLiteral ''1.12345678'' = MV (112345678 / 100000000)
   \<and> \<not> withinPrecision 7 (112345678 / 100000000)
   \<and> calls (trace (handleSendPayment testnetEnv (start (filledForm destKey ''1.12345678'') 0)))
       = [Build sourceKey destKey ''1.12345678'',
          Sign ''unsigned-envelope'' (signOptions testnetEnv),
          Submit ''signed-envelope'']
   \<and> error (ui (handleSendPayment testnetEnv (start (filledForm destKey ''1.12345678'') 0)))
       = None"
proof -
  have "\<not> withinPrecision 7 (112345678 / 100000000)"
    by code_simp
  then show ?thesis
    by (simp add: validateInputs_8_digits literal_8_digits
        testnet_run_amount [OF validateInputs_8_digits] trim_8_digits successState_def)
qed

text \<open>
  C8. In every state that the form shows while the handler waits for a call (build, sign
  or submit), loading is on, so the submit button is disabled and submitting the form
  does nothing. Validation is synchronous: the form shows no state of its own for it.
\<close>

theorem pending_states_disable_submit:
  "\<forall>s' \<in> set (pending (trace (handleSendPayment env (start s p)))).
      isLoading s' \<and> submitDisabled s'
      \<and> (\<forall>p' t'. onSubmit env \<lparr>ui = s', parent = p', trace = t'\<rparr>
                    = \<lparr>ui = s', parent = p', trace = t'\<rparr>)"
  by (cases rule: run_outcome [of env "start s p"])
    (simp_all add: start_def state_defs pending_notifyParent submitDisabled_def onSubmit_def)

theorem pending_states_disable_submit_witness:
  "pendingState ''submitting'' (filledForm destKey ''10'')
     \<in> set (pending (trace (handleSendPayment testnetEnv (start (filledForm destKey ''10'') 0))))
   \<and> submitDisabled (pendingState ''submitting'' (filledForm destKey ''10''))
   \<and> onSubmit testnetEnv
        \<lparr>ui = pendingState ''submitting'' (filledForm destKey ''10''), parent = 0, trace = []\<rparr>
      = \<lparr>ui = pendingState ''submitting'' (filledForm destKey ''10''), parent = 0, trace = []\<rparr>"
proof -
  have m: "pendingState ''submitting'' (filledForm destKey ''10'')
     \<in> set (pending (trace (handleSendPayment testnetEnv (start (filledForm destKey ''10'') 0))))"
    by (simp add: testnet_run)
  from pending_states_disable_submit [of testnetEnv "filledForm destKey ''10''" 0] m
  show ?thesis
    by blast
qed

text \<open>
  C9. The AddressValidator is a function of its argument alone, so it has no effect and
  gives an answer for every string; that answer is false for the empty string, for a
  string whose length is not 56, for one that does not start with \<^verbatim>\<open>G\<close>, and for one
  whose checksum encoding is not valid.
\<close>

theorem AddressValidator_rejects:
  assumes "s = [] \<or> length s \<noteq> 56 \<or> hd s \<noteq> CHR ''G'' \<or> \<not> checksumValid s"
  shows "AddressValidator checksumValid s = False"
  using assms by (auto simp add: AddressValidator_def)

theorem AddressValidator_rejects_witness:
  "AddressValidator (\<lambda>s. True) [] = False
   \<and> AddressValidator (\<lambda>s. True) ''GABC'' = False
   \<and> AddressValidator (\<lambda>s. True) (CHR ''X'' # tl destKey) = False
   \<and> AddressValidator (\<lambda>s. False) destKey = False"
proof -
  have "length ''GABC'' \<noteq> 56" "hd (CHR ''X'' # tl destKey) \<noteq> CHR ''G''"
    by simp_all
  then show ?thesis
    using AddressValidator_rejects [of "[]" "\<lambda>s. True"]
      AddressValidator_rejects [of "''GABC''" "\<lambda>s. True"]
      AddressValidator_rejects [of "CHR ''X'' # tl destKey" "\<lambda>s. True"]
      AddressValidator_rejects [of destKey "\<lambda>s. False"]
    by blast
qed

text \<open>
  C10 (amended). When the destination or the amount is the empty string the submit
  button is disabled and submitting does nothing. The amount state holds the empty
  string or a valid floating-point number, whatever is typed and after every run, so with
  the button enabled \<^verbatim>\<open>Amount is required\<close> is never thrown: that branch cannot be
  reached through the submit button. \<^verbatim>\<open>Destination address is required\<close> can: with the
  button enabled it is thrown exactly when the destination, which is then not empty,
  consists of white space only, and submitting such a form, with an amount that passes
  the browser's check, shows the message.
\<close>

theorem required_messages_need_blank_fields:
  "(destination s = [] \<or> amount s = [] \<longrightarrow>
      submitDisabled s \<and> onSubmit env (start s p) = start s p)
   \<and> amountHeld []
   \<and> (amountHeld (amount s) \<longrightarrow>
        amountHeld (amount (ui (onChangeAmount typed (start s p))))
        \<and> amountHeld (amount (ui (onSubmit env (start s p)))))
   \<and> (amountHeld (amount s) \<and> \<not> submitDisabled s \<longrightarrow>
        validateInputs env s \<noteq> Inl (Thrown (Some ''Amount is required'')))
   \<and> ((\<not> submitDisabled s
        \<and> validateInputs env s = Inl (Thrown (Some ''Destination address is required'')))
       \<longleftrightarrow> (\<not> isLoading s \<and> destination s \<noteq> [] \<and> amount s \<noteq> []
            \<and> trim (destination s) = []))
   \<and> (\<not> submitDisabled s \<and> publicKey env \<noteq> [] \<and> amountInputValid (amount s)
        \<and> trim (destination s) = [] \<longrightarrow>
        error (ui (onSubmit env (start s p))) = Some ''Destination address is required'')"
proof -
  have a: "destination s = [] \<or> amount s = [] \<longrightarrow>
      submitDisabled s \<and> onSubmit env (start s p) = start s p"
    by (auto simp add: submitDisabled_def onSubmit_def start_def)
  have h: "amountHeld []"
    by (simp add: amountHeld_def)
  have i: "amountHeld (amount (ui (onChangeAmount typed (start s p))))
        \<and> amountHeld (amount (ui (onSubmit env (start s p))))"
    if "amountHeld (amount s)"
    using that amountHeld_onChangeAmount [of "start s p" typed]
      amountHeld_onSubmit [of "start s p" env]
    by (simp add: start_def)
  have b: "validateInputs env s \<noteq> Inl (Thrown (Some ''Amount is required''))"
    if "amountHeld (amount s)" "\<not> submitDisabled s"
  proof -
    from that(2) have "amount s \<noteq> []"
      by (simp add: submitDisabled_def)
    from amountHeld_not_blank [OF that(1) this] show ?thesis
      by (simp add: validateInputs_def)
  qed
  have c: "validateInputs env s = Inl (Thrown (Some ''Destination address is required''))
      \<longleftrightarrow> trim (destination s) = []"
    by (simp add: validateInputs_def)
  have d: "error (ui (onSubmit env (start s p))) = Some ''Destination address is required''"
    if "\<not> submitDisabled s" "publicKey env \<noteq> []" "amountInputValid (amount s)"
      "trim (destination s) = []"
  proof -
    from that(4) have "validateInputs env s = Inl (Thrown (Some (ruleMessage EmptyAddress)))"
      by (simp add: validateInputs_def)
    from run_rule [OF this, of p] that(1,2,3) show ?thesis
      by (simp add: onSubmit_def start_def failedState_def)
  qed
  from a h i b c d show ?thesis
    unfolding submitDisabled_def by blast
qed

theorem required_messages_need_blank_fields_witness:
  "submitDisabled (filledForm [] ''10'')
   \<and> onSubmit testnetEnv (start (filledForm [] ''10'') 0) = start (filledForm [] ''10'') 0
   \<and> amountHeld (amount (filledForm '' '' ''10''))
   \<and> amountInputValid (amount (filledForm '' '' ''10''))
   \<and> validateInputs testnetEnv (filledForm '' '' ''10'')
       \<noteq> Inl (Thrown (Some ''Amount is required''))
   \<and> trim (destination (filledForm '' '' ''10'')) = []
   \<and> error (ui (onSubmit testnetEnv (start (filledForm '' '' ''10'') 0)))
       = Some ''Destination address is required''"
proof -
  have e: "destination (filledForm [] ''10'') = []"
    by (simp add: filledForm_def)
  have n: "\<not> submitDisabled (filledForm '' '' ''10'')"
    by (simp add: submitDisabled_def filledForm_def)
  have t: "trim (destination (filledForm '' '' ''10'')) = []"
    by (simp add: filledForm_def trim_blank)
  have v: "amountHeld (amount (filledForm '' '' ''10''))"
    "amountInputValid (amount (filledForm '' '' ''10''))"
    by (simp_all add: filledForm_def amountHeld_10 amountInputValid_10)
  from required_messages_need_blank_fields [of "filledForm [] ''10''" testnetEnv 0]
    required_messages_need_blank_fields [of "filledForm '' '' ''10''" testnetEnv 0]
    e n t v sourceKey_nonempty
  show ?thesis
    by blast
qed

theorem blank_destination_counterexample:
  "\<not> submitDisabled (filledForm '' '' ''10'')
   \<and> publicKey testnetEnv \<noteq> []
   \<and> amountHeld ''10''
   \<and> amountInputValid ''10''
   \<and> validateInputs testnetEnv (filledForm '' '' ''10'')
       = Inl (Thrown (Some ''Destination address is required''))
   \<and> error (ui (onSubmit testnetEnv (start (filledForm '' '' ''10'') 0)))
       = Some ''Destination address is required''"
proof -
  have n: "\<not> submitDisabled (filledForm '' '' ''10'')"
    by (simp add: submitDisabled_def filledForm_def)
  have a: "amount (filledForm '' '' ''10'') = ''10''"
    by (simp add: filledForm_def)
  have v: "validateInputs testnetEnv (filledForm '' '' ''10'')
       = Inl (Thrown (Some (ruleMessage EmptyAddress)))"
    by (simp add: validateInputs_def filledForm_def trim_blank)
  from run_rule [OF v, of 0] n v sourceKey_nonempty amountInputValid_10 amountHeld_10 a
  show ?thesis
    by (simp add: onSubmit_def failedState_def start_def)
qed

end
